theory Spec2Isabelle
  imports Main "HOL-Library.Word" "HOL-Library.AList"
begin

unbundle bit_operations_syntax

section \<open>Data model\<close>

text \<open>
  Go byte slices are lists of 8-bit words, Go strings are lists of characters (one
  character per byte, which is what Go's \<open>len\<close> and slicing count).  A Go \<open>int\<close> is
  modelled as an unbounded \<open>int\<close> where it can go negative and as a \<open>nat\<close> where it is
  an index or a length; the one place where 64-bit wrap-around can be reached (an index
  sum in \<open>Blocks.Load\<close>) writes it out.
\<close>

type_synonym byte = "8 word"
type_synonym bytes = "byte list"

text \<open>
  A Go call either panics (a run-time error such as a slice bound out of range or a call
  of a nil function value) or returns.  Returned \<open>error\<close> values are data.
\<close>

datatype 'a outcome = Panics | Returns 'a

datatype error = HeaderError string | KeyBlockError string | PlainError string

definition obind :: "'a outcome \<Rightarrow> ('a \<Rightarrow> 'b outcome) \<Rightarrow> 'b outcome" where
  "obind m f = (case m of Panics \<Rightarrow> Panics | Returns x \<Rightarrow> f x)"

text \<open>\<open>[]byte(s)\<close> and \<open>string(b)\<close>.\<close>

definition byte_of_char :: "char \<Rightarrow> byte" where
  "byte_of_char c = of_nat (of_char c)"

definition char_of_byte :: "byte \<Rightarrow> char" where
  "char_of_byte b = char_of (unat b)"

definition bytes_of_string :: "string \<Rightarrow> bytes" where
  "bytes_of_string s = map byte_of_char s"

definition string_of_bytes :: "bytes \<Rightarrow> string" where
  "string_of_bytes b = map char_of_byte b"

subsection \<open>Standard-library formatting and parsing\<close>

text \<open>\<open>hex.EncodeToString\<close>: two lower-case hexadecimal digits per byte.\<close>

definition hexdigit :: "nat \<Rightarrow> char" where
  "hexdigit n = ''0123456789abcdef'' ! (n mod 16)"

definition EncodeToString :: "bytes \<Rightarrow> string" where
  "EncodeToString bs = concat (map (\<lambda>b. [hexdigit (unat b div 16), hexdigit (unat b mod 16)]) bs)"

text \<open>The value of one hexadecimal digit, either case (\<open>fromHexChar\<close> of encoding/hex).\<close>

definition fromHexChar :: "char \<Rightarrow> nat option" where
  "fromHexChar c =
     (let n = (of_char c :: nat) in
      if 48 \<le> n \<and> n \<le> 57 then Some (n - 48)
      else if 97 \<le> n \<and> n \<le> 102 then Some (n - 87)
      else if 65 \<le> n \<and> n \<le> 70 then Some (n - 55)
      else None)"

text \<open>
  \<open>hex.DecodeString\<close>: \<open>None\<close> stands for its error result (an odd length or a
  character that is no hexadecimal digit); every caller only tests \<open>err != nil\<close>.
\<close>

fun DecodeString :: "string \<Rightarrow> bytes option" where
  "DecodeString [] = Some []"
| "DecodeString [c] = None"
| "DecodeString (a # b # cs) =
     (case (fromHexChar a, fromHexChar b) of
        (Some x, Some y) \<Rightarrow>
          (case DecodeString cs of
             Some r \<Rightarrow> Some (of_nat (x * 16 + y) # r)
           | None \<Rightarrow> None)
      | _ \<Rightarrow> None)"

text \<open>\<open>strings.ToUpper\<close> on ASCII text.\<close>

definition upper_char :: "char \<Rightarrow> char" where
  "upper_char c =
     (let n = (of_char c :: nat) in if 97 \<le> n \<and> n \<le> 122 then char_of (n - 32) else c)"

definition ToUpper :: "string \<Rightarrow> string" where
  "ToUpper s = map upper_char s"

text \<open>Decimal digits of a natural number, as \<open>%d\<close> prints them.\<close>

fun dec_digits :: "nat \<Rightarrow> nat \<Rightarrow> string" where
  "dec_digits 0 n = []"
| "dec_digits (Suc f) n =
     (if n < 10 then [hexdigit n] else dec_digits f (n div 10) @ [hexdigit (n mod 10)])"

definition sprint_d :: "int \<Rightarrow> string" where
  "sprint_d n =
     (if n < 0 then CHR ''-'' # dec_digits (Suc (nat (- n))) (nat (- n))
      else dec_digits (Suc (nat n)) (nat n))"

text \<open>\<open>%0wd\<close> for a non-negative number: zero padding up to the width, never truncating.\<close>

definition sprint_0d :: "nat \<Rightarrow> nat \<Rightarrow> string" where
  "sprint_0d w n =
     (let s = dec_digits (Suc n) n in replicate (w - length s) CHR ''0'' @ s)"

text \<open>Upper-case hexadecimal digits of a natural number, as \<open>%X\<close> prints them.\<close>

fun hex_digits :: "nat \<Rightarrow> nat \<Rightarrow> string" where
  "hex_digits 0 n = []"
| "hex_digits (Suc f) n =
     (if n < 16 then [upper_char (hexdigit n)]
      else hex_digits f (n div 16) @ [upper_char (hexdigit (n mod 16))])"

definition sprint_0X :: "nat \<Rightarrow> nat \<Rightarrow> string" where
  "sprint_0X w n =
     (let s = hex_digits (Suc n) n in replicate (w - length s) CHR ''0'' @ s)"

section \<open>ISO/IEC 9797-1 padding and the CBC-MAC engine\<close>

text \<open>
  \<open>padISO1\<close>, \<open>padISO2\<close> and \<open>padISO3\<close> return \<open>(data, nil)\<close> on every path, so the
  model returns the padded data alone.
\<close>

definition padISO1 :: "bytes \<Rightarrow> int \<Rightarrow> bytes" where
  "padISO1 data blockSize =
     (let bs = (if blockSize \<le> 0 then 8 else nat blockSize);
          remainder = length data mod bs;
          data1 = (if remainder > 0 then data @ replicate (bs - remainder) 0 else data)
      in if length data1 = 0 then replicate bs 0 else data1)"

definition padISO2 :: "bytes \<Rightarrow> int \<Rightarrow> bytes" where
  "padISO2 data blockSize =
     (let bs = (if blockSize \<le> 0 then 8 else blockSize)
      in padISO1 (data @ [0x80]) bs)"

text \<open>
  \<open>be_bytes n v\<close> is the loop \<open>b[i] = byte(v >> (8 * (n - 1 - i)))\<close> for \<open>i < n\<close>;
  \<open>binary.BigEndian.PutUint32\<close> and \<open>PutUint64\<close> write \<open>be_bytes 4\<close> and \<open>be_bytes 8\<close>
  into the first four or eight bytes of their buffer and leave the rest as it is.
\<close>

definition be_bytes :: "nat \<Rightarrow> 'a::len word \<Rightarrow> bytes" where
  "be_bytes n v = map (\<lambda>i. ucast (drop_bit (8 * (n - 1 - i)) v)) [0..<n]"

definition padISO3 :: "bytes \<Rightarrow> int \<Rightarrow> bytes" where
  "padISO3 data blockSize =
     (let bs = (if blockSize \<le> 0 then 8 else nat blockSize);
          lengthBytes =
            (if bs < 4 then be_bytes bs (of_nat (length data * 8) :: 64 word)
             else if bs < 8 then
               be_bytes 4 (of_nat (length data * 8) :: 32 word) @ replicate (bs - 4) 0
             else be_bytes 8 (of_nat (length data * 8) :: 64 word) @ replicate (bs - 8) 0)
      in lengthBytes @ padISO1 data (int bs))"

text \<open>
  The claim's reading of Mode 3, for comparison with \<open>padISO3\<close>: one block holding the
  bit length \<open>8 * |d|\<close> as a big-endian integer over the whole block, then the Mode-1
  padding of the data.
\<close>

fun be_nat :: "nat \<Rightarrow> nat \<Rightarrow> bytes" where
  "be_nat 0 v = []"
| "be_nat (Suc n) v = be_nat n (v div 256) @ [of_nat (v mod 256)]"

definition mode3_as_claimed :: "bytes \<Rightarrow> nat \<Rightarrow> bytes" where
  "mode3_as_claimed d b = be_nat b (8 * length d) @ padISO1 d (int b)"

text \<open>
  The cipher collaborators are not part of the sources: they are parameters of the
  model.  Each takes the key, the IV (CBC only) and the data and returns an error or the
  result.
\<close>

record ciphers =
  EncryptTDESCBC :: "bytes \<Rightarrow> bytes \<Rightarrow> bytes \<Rightarrow> error + bytes"
  DecryptTDESCBC :: "bytes \<Rightarrow> bytes \<Rightarrow> bytes \<Rightarrow> error + bytes"
  EncryptTDSECB :: "bytes \<Rightarrow> bytes \<Rightarrow> error + bytes"
  EncryptAESCBC :: "bytes \<Rightarrow> bytes \<Rightarrow> bytes \<Rightarrow> error + bytes"
  DecryptAESCBC :: "bytes \<Rightarrow> bytes \<Rightarrow> bytes \<Rightarrow> error + bytes"
  EncryptAESECB :: "bytes \<Rightarrow> bytes \<Rightarrow> error + bytes"

text \<open>\<open>type Algorithm int\<close> with \<open>DES = 0\<close> and \<open>AES = 1\<close>.\<close>

definition DES :: int where "DES = 0"
definition AES :: int where "AES = 1"

text \<open>
  \<open>GenerateCBCMAC\<close>.  The key is an option: \<open>None\<close> is Go's nil slice, which the
  function tells apart from an empty one.  \<open>_padDispatch\<close> has the keys 1, 2 and 3; a
  lookup of any other key gives a nil function, and calling it panics.  The final
  \<open>mac[len(mac)-blockSize:]\<close> and \<open>mac[:length]\<close> panic when out of range (the slice's
  capacity is taken to be its length).
\<close>

definition GenerateCBCMAC ::
  "ciphers \<Rightarrow> bytes option \<Rightarrow> bytes \<Rightarrow> int \<Rightarrow> int \<Rightarrow> int \<Rightarrow> (error + bytes) outcome" where
  "GenerateCBCMAC c key data padding length0 algorithm =
     (if padding = 0 then Returns (Inl (PlainError ''Specify valid padding method: 1, 2 or 3.''))
      else case key of
        None \<Rightarrow> Returns (Inl (PlainError ''Invalid key.''))
      | Some k \<Rightarrow>
        if length data = 0 then Returns (Inl (PlainError ''Invalid data.''))
        else
          let len = (if length0 = 0 then (if algorithm = AES then 16 else 8) else length0);
              blockSize = (if algorithm = AES then 16 else 8);
              implementation = (if algorithm = AES then EncryptAESCBC c else EncryptTDESCBC c)
          in
          if padding > 3 then
            Returns (Inl (PlainError ''Specify valid padding method: 1, 2 or 3.''))
          else if padding < 1 then Panics
          else
            let paddedData =
                  (if padding = 1 then padISO1 data blockSize
                   else if padding = 2 then padISO2 data blockSize
                   else padISO3 data blockSize)
            in
            case implementation k (replicate (nat blockSize) 0) paddedData of
              Inl e \<Rightarrow> Returns (Inl e)
            | Inr mac \<Rightarrow>
                if int (length mac) < blockSize then Panics
                else
                  let mac1 = drop (length mac - nat blockSize) mac in
                  if len < 0 \<or> int (length mac1) < len then Panics
                  else Returns (Inr (take (nat len) mac1)))"

section \<open>Optional blocks\<close>

subsection \<open>Helpers that are not among the sources\<close>

text \<open>
  Modelled from the spec: \<open>asciiAlphanumeric\<close>, \<open>asciiNumeric\<close>, \<open>asciiPrintable\<close>,
  \<open>isAsciiHex\<close>, \<open>hexToInt\<close> and \<open>stringToInt\<close> are called by the header codec and not
  defined in the source files at hand.  They are modelled after their names and the
  spec's alphabets (section 3: alphanumeric IDs, printable ASCII values, decimal length
  digits, hexadecimal block lengths).
\<close>

definition is_digit :: "char \<Rightarrow> bool" where
  "is_digit c = (let n = (of_char c :: nat) in 48 \<le> n \<and> n \<le> 57)"

definition is_alnum :: "char \<Rightarrow> bool" where
  "is_alnum c =
     (let n = (of_char c :: nat) in
      (48 \<le> n \<and> n \<le> 57) \<or> (65 \<le> n \<and> n \<le> 90) \<or> (97 \<le> n \<and> n \<le> 122))"

definition is_printable :: "char \<Rightarrow> bool" where
  "is_printable c = (let n = (of_char c :: nat) in 32 \<le> n \<and> n \<le> 126)"

definition is_hex :: "char \<Rightarrow> bool" where
  "is_hex c = (fromHexChar c \<noteq> None)"

text \<open>Modelled from the spec: every character is an ASCII letter or digit.\<close>

definition asciiAlphanumeric :: "string \<Rightarrow> bool" where
  "asciiAlphanumeric s = list_all is_alnum s"

text \<open>Modelled from the spec: every character is a decimal digit.\<close>

definition asciiNumeric :: "string \<Rightarrow> bool" where
  "asciiNumeric s = list_all is_digit s"

text \<open>Modelled from the spec: every character is printable ASCII.\<close>

definition asciiPrintable :: "string \<Rightarrow> bool" where
  "asciiPrintable s = list_all is_printable s"

text \<open>Modelled from the spec: every character is a hexadecimal digit, either case.\<close>

definition isAsciiHex :: "string \<Rightarrow> bool" where
  "isAsciiHex s = list_all is_hex s"

text \<open>The number a string of hexadecimal digits denotes (0 for a character that is none).\<close>

definition hexdig_val :: "char \<Rightarrow> int" where
  "hexdig_val c = int (case fromHexChar c of Some d \<Rightarrow> d | None \<Rightarrow> 0)"

definition hexval :: "string \<Rightarrow> int" where
  "hexval s = foldl (\<lambda>acc c. acc * 16 + hexdig_val c) 0 s"

text \<open>
  Modelled from the spec: \<open>hexToInt\<close> reads the two-character hexadecimal block length.
  Its result on a string that is not hexadecimal is not documented; the model gives 0
  there, which sends \<open>Blocks.Load\<close> to the extended-length branch, whose own checks then
  reject the input or not.
\<close>

definition hexToInt :: "string \<Rightarrow> int" where
  "hexToInt s = (if s \<noteq> [] \<and> isAsciiHex s then hexval s else 0)"

definition decval :: "string \<Rightarrow> int" where
  "decval s = foldl (\<lambda>acc c. acc * 10 + (int (of_char c) - 48)) 0 s"

text \<open>
  Modelled from the spec: \<open>stringToInt\<close> reads the four decimal digits of the key block
  length; \<open>Unwrap\<close> calls it after \<open>asciiNumeric\<close> has accepted them.
\<close>

definition stringToInt :: "string \<Rightarrow> int" where
  "stringToInt s = (if s \<noteq> [] \<and> asciiNumeric s then decval s else 0)"

text \<open>
  \<open>strconv.ParseInt(s, 16, 0)\<close>: an optional sign, then hexadecimal digits; the error
  text (\<open>Inl\<close>) reports invalid syntax or a value outside the 64-bit range.
\<close>

definition quote :: "string \<Rightarrow> string" where
  "quote s = [CHR 0x22] @ s @ [CHR 0x22]"

definition ParseInt16 :: "string \<Rightarrow> string + int" where
  "ParseInt16 s =
     (let neg = (s \<noteq> [] \<and> hd s = CHR ''-'');
          digits = (if s \<noteq> [] \<and> (hd s = CHR ''-'' \<or> hd s = CHR ''+'') then tl s else s)
      in if digits = [] \<or> \<not> isAsciiHex digits then
           Inl (''strconv.ParseInt: parsing '' @ quote s @ '': invalid syntax'')
         else
           let v = hexval digits in
           if (\<not> neg \<and> v > 2 ^ 63 - 1) \<or> (neg \<and> v > 2 ^ 63) then
             Inl (''strconv.ParseInt: parsing '' @ quote s @ '': value out of range'')
           else Inr (if neg then - v else v))"

subsection \<open>The block mapping\<close>

text \<open>
  The Go map \<open>_blocks\<close> is an association list with distinct keys; its order stands for
  the order in which \<open>range\<close> happens to visit the map, so a statement about every list is
  a statement about every iteration order.
\<close>

type_synonym Blocks = "(string \<times> string) list"

definition NewBlocks :: Blocks where
  "NewBlocks = []"

definition Blocks_Set :: "Blocks \<Rightarrow> string \<Rightarrow> string \<Rightarrow> Blocks \<times> error option" where
  "Blocks_Set b key item =
     (if length key \<noteq> 2 \<or> \<not> asciiAlphanumeric key then
        (b, Some (HeaderError (''Block ID ('' @ key @ '') is invalid. Expecting 2 alphanumeric characters.'')))
      else if \<not> asciiPrintable item then
        (b, Some (HeaderError (''Block '' @ key @
            '' data is invalid. Expecting ASCII printable characters. Data: '' @ [CHR 0x27] @ item @ [CHR 0x27])))
      else (AList.update key item b, None))"

definition Blocks_Delete :: "Blocks \<Rightarrow> string \<Rightarrow> Blocks" where
  "Blocks_Delete b key = AList.delete key b"

definition Blocks_Contains :: "Blocks \<Rightarrow> string \<Rightarrow> bool" where
  "Blocks_Contains b key = (map_of b key \<noteq> None)"

text \<open>The loop of \<open>Blocks.Dump\<close>: the concatenation of the caller's blocks.\<close>

fun dump_blocks :: "Blocks \<Rightarrow> error + string" where
  "dump_blocks [] = Inr []"
| "dump_blocks ((blockID, blockData) # rest) =
     (if length blockData + 4 \<le> 255 then
        (case dump_blocks rest of
           Inl e \<Rightarrow> Inl e
         | Inr s \<Rightarrow> Inr (blockID @ EncodeToString [of_nat (length blockData + 4)] @ blockData @ s))
      else if length blockData + 10 > 0xFFFF then
        Inl (HeaderError (''Block '' @ blockID @ '' length is too long.''))
      else
        (case dump_blocks rest of
           Inl e \<Rightarrow> Inl e
         | Inr s \<Rightarrow> Inr (blockID @ ''0002'' @ sprint_0X 4 (length blockData + 10) @ blockData @ s)))"

definition pbBlock :: "nat \<Rightarrow> string" where
  "pbBlock padNum = ''PB'' @ sprint_0X 2 (4 + padNum) @ replicate padNum CHR ''0''"

definition Blocks_Dump :: "Blocks \<Rightarrow> int \<Rightarrow> nat \<times> string \<times> error option" where
  "Blocks_Dump b algoBlockSize =
     (case dump_blocks b of
        Inl e \<Rightarrow> (0, [], Some e)
      | Inr blocks \<Rightarrow>
          if length blocks > 0 \<and> algoBlockSize > 0 \<and> length blocks mod nat algoBlockSize \<noteq> 0 then
            let padNum = nat algoBlockSize - ((length blocks + 4) mod nat algoBlockSize)
            in (length b + 1, blocks @ pbBlock padNum, None)
          else (length b, blocks, None))"

text \<open>
  \<open>parseExtendedLen\<close> returns the data length, the new index and the error.  The slice
  \<open>blocks[i:]\<close> in its first message panics when \<open>i\<close> lies beyond the input.
\<close>

definition parseExtendedLen :: "string \<Rightarrow> string \<Rightarrow> nat \<Rightarrow> (int \<times> nat \<times> error option) outcome" where
  "parseExtendedLen blockID blocks i =
     (if length blocks < i + 2 then
        (if length blocks < i then Panics
         else Returns (0, i, Some (HeaderError (''Block '' @ blockID @ '' length of length ('' @
                 drop i blocks @ '') is malformed. Expecting 2 hexchars.''))))
      else
        let blockLenLenS = take 2 (drop i blocks) in
        if length blockLenLenS \<noteq> 2 \<or> \<not> isAsciiHex blockLenLenS then
          Returns (0, i, Some (HeaderError (''Block '' @ blockID @ '' length of length ('' @
                 blockLenLenS @ '') is malformed. Expecting 2 hexchars.'')))
        else
          let i1 = i + 2 in
          case ParseInt16 blockLenLenS of
            Inl err \<Rightarrow>
              Returns (0, i1, Some (HeaderError (''Failed to parse block length length ('' @
                 blockLenLenS @ '') for block '' @ blockID @ '': '' @ err)))
          | Inr v \<Rightarrow>
              let blockLenLen = nat (v * 2) in
              if blockLenLen = 0 then
                Returns (0, i1, Some (HeaderError (''Block '' @ blockID @ '' length of length must not be 0.'')))
              else if length blocks < i1 + blockLenLen then
                Returns (0, i1, Some (HeaderError (''Block '' @ blockID @ '' length ('' @
                   drop i1 blocks @ '') is malformed. Expecting 2 hexchars.'')))
              else
                let blockLenS = take blockLenLen (drop i1 blocks) in
                if length blockLenS \<noteq> blockLenLen \<or> \<not> isAsciiHex blockLenS then
                  Returns (0, i1, Some (HeaderError (''Block '' @ blockID @ '' length ('' @ blockLenS @
                     '') is malformed. Expecting '' @ sprint_d (int blockLenLen) @ '' hexchars.'')))
                else
                  case ParseInt16 blockLenS of
                    Inl err \<Rightarrow>
                      Returns (0, i1, Some (HeaderError (''Failed to parse block length ('' @
                         blockLenS @ '') for block '' @ blockID @ '': '' @ err)))
                  | Inr blockLen \<Rightarrow>
                      Returns (blockLen - 6 - int blockLenLen, i1 + blockLenLen, None))"

text \<open>
  One turn of the loop of \<open>Blocks.Load\<close> at index \<open>i\<close>: an error, or the block's ID, its
  data and the index after it.  Two slices can be out of range: \<open>blocks[i:i+1]\<close> in
  the message for an input that ends exactly at \<open>i\<close>, and \<open>blocks[i:i+blockLen]\<close> when
  \<open>i + blockLen\<close> exceeds the 64-bit range and wraps to a negative number, which the
  length test before it lets through.
\<close>

definition load_block :: "string \<Rightarrow> nat \<Rightarrow> (error + string \<times> string \<times> nat) outcome" where
  "load_block blocks i =
     (if length blocks < 1 then Returns (Inl (HeaderError ''Block ID () is malformed.''))
      else if length blocks < 2 \<or> length blocks < i + 2 then
        (if length blocks < i + 1 then Panics
         else Returns (Inl (HeaderError (''Block ID ('' @ take 1 (drop i blocks) @ '') is malformed.''))))
      else
        let blockID = take 2 (drop i blocks); i1 = i + 2 in
        if \<not> asciiAlphanumeric blockID then
          Returns (Inl (HeaderError (''Block ID ('' @ blockID @
             '') is invalid. Expecting 2 alphanumeric characters.'')))
        else if length blocks < i1 + 4 then
          Returns (Inl (HeaderError (''Block '' @ blockID @ '' length ('' @ drop i1 blocks @
             '') is malformed. Expecting 2 hexchars.'')))
        else
          let blockLenS = take 2 (drop i1 blocks); i2 = i1 + 2; blockLen0 = hexToInt blockLenS in
          case (if blockLen0 = 0 then parseExtendedLen blockID blocks i2
                else Returns (blockLen0 - 4, i2, None)) of
            Panics \<Rightarrow> Panics
          | Returns (blockLen, i3, Some err) \<Rightarrow> Returns (Inl err)
          | Returns (blockLen, i3, None) \<Rightarrow>
              if blockLen < 0 then
                Returns (Inl (HeaderError (''Block '' @ blockID @
                   '' length does not include block ID and length.'')))
              else if int i3 + blockLen > 2 ^ 63 - 1 then Panics
              else if length blocks < i3 + nat blockLen then
                Returns (Inl (HeaderError (''Block '' @ blockID @ '' data is malformed. Received '' @
                   sprint_d (int (length blocks) - int i3) @ ''/'' @ sprint_d blockLen @
                   ''. Block data: '' @ [CHR 0x27] @ drop i3 blocks @ [CHR 0x27])))
              else Returns (Inr (blockID, take (nat blockLen) (drop i3 blocks), i3 + nat blockLen)))"

text \<open>
  The loop of \<open>Blocks.Load\<close>, with the mapping filled so far.  The mapping is part of the
  result on an error return too (Go has stored the earlier blocks by then); the returned
  index is 0 on an error.
\<close>

fun load_loop :: "nat \<Rightarrow> string \<Rightarrow> nat \<Rightarrow> Blocks \<Rightarrow> (Blocks \<times> nat \<times> error option) outcome" where
  "load_loop 0 blocks i m = Returns (m, i, None)"
| "load_loop (Suc j) blocks i m =
     (case load_block blocks i of
        Panics \<Rightarrow> Panics
      | Returns (Inl err) \<Rightarrow> Returns (m, 0, Some err)
      | Returns (Inr (blockID, blockData, i')) \<Rightarrow>
          load_loop j blocks i' (if blockID \<noteq> ''PB'' then AList.update blockID blockData m else m))"

definition Blocks_Load :: "int \<Rightarrow> string \<Rightarrow> (Blocks \<times> nat \<times> error option) outcome" where
  "Blocks_Load blocksNum blocks = load_loop (nat blocksNum) blocks 0 []"

section \<open>The header\<close>

record Header =
  VersionID :: string
  KeyUsage :: string
  Algorithm :: string
  ModeOfUse :: string
  VersionNum :: string
  Exportability :: string
  Reserved :: string
  Blocks :: Blocks

text \<open>
  The tables \<open>_versionIDAlgoBlockSize\<close>, \<open>_versionIDKeyBlockMacLen\<close> and
  \<open>_algoIDMaxKeyLen\<close>; a Go map gives 0 for a missing key.
\<close>

definition versionIDAlgoBlockSize :: "string \<Rightarrow> nat" where
  "versionIDAlgoBlockSize v =
     (if v = ''A'' then 8 else if v = ''B'' then 8 else if v = ''C'' then 8
      else if v = ''D'' then 16 else 0)"

definition versionIDKeyBlockMacLen :: "string \<Rightarrow> nat" where
  "versionIDKeyBlockMacLen v =
     (if v = ''A'' then 4 else if v = ''B'' then 8 else if v = ''C'' then 4
      else if v = ''D'' then 16 else 0)"

definition algoIDMaxKeyLen :: "string \<Rightarrow> nat option" where
  "algoIDMaxKeyLen a =
     (if a = ''T'' then Some 24 else if a = ''D'' then Some 24 else if a = ''A'' then Some 32
      else None)"

definition DefaultHeader :: Header where
  "DefaultHeader =
     \<lparr>VersionID = ''B'', KeyUsage = ''00'', Algorithm = ''0'', ModeOfUse = ''0'',
      VersionNum = ''00'', Exportability = ''N'', Reserved = ''00'', Blocks = NewBlocks\<rparr>"

definition SetVersionID :: "Header \<Rightarrow> string \<Rightarrow> Header \<times> error option" where
  "SetVersionID h versionID =
     (if versionID \<noteq> ''A'' \<and> versionID \<noteq> ''B'' \<and> versionID \<noteq> ''C'' \<and> versionID \<noteq> ''D'' then
        (h, Some (HeaderError (''Version ID ('' @ versionID @ '') is not supported.'')))
      else (h\<lparr>VersionID := versionID\<rparr>, None))"

definition SetKeyUsage :: "Header \<Rightarrow> string \<Rightarrow> Header \<times> error option" where
  "SetKeyUsage h keyUsage =
     (if length keyUsage \<noteq> 2 \<or> \<not> asciiAlphanumeric keyUsage then
        (h, Some (HeaderError (''Key usage ('' @ keyUsage @ '') is invalid.'')))
      else (h\<lparr>KeyUsage := keyUsage\<rparr>, None))"

definition SetAlgorithm :: "Header \<Rightarrow> string \<Rightarrow> Header \<times> error option" where
  "SetAlgorithm h algorithm =
     (if length algorithm \<noteq> 1 \<or> \<not> asciiAlphanumeric algorithm then
        (h, Some (HeaderError (''Algorithm ('' @ algorithm @ '') is invalid.'')))
      else (h\<lparr>Algorithm := algorithm\<rparr>, None))"

definition SetModeOfUse :: "Header \<Rightarrow> string \<Rightarrow> Header \<times> error option" where
  "SetModeOfUse h modeOfUse =
     (if length modeOfUse \<noteq> 1 \<or> \<not> asciiAlphanumeric modeOfUse then
        (h, Some (HeaderError (''Mode of use ('' @ modeOfUse @ '') is invalid.'')))
      else (h\<lparr>ModeOfUse := modeOfUse\<rparr>, None))"

definition SetVersionNum :: "Header \<Rightarrow> string \<Rightarrow> Header \<times> error option" where
  "SetVersionNum h versionNum =
     (if length versionNum \<noteq> 2 \<or> \<not> asciiAlphanumeric versionNum then
        (h, Some (HeaderError (''Version number ('' @ versionNum @ '') is invalid.'')))
      else (h\<lparr>VersionNum := versionNum\<rparr>, None))"

definition SetExportability :: "Header \<Rightarrow> string \<Rightarrow> Header \<times> error option" where
  "SetExportability h exportability =
     (if length exportability \<noteq> 1 \<or> \<not> asciiAlphanumeric exportability then
        (h, Some (HeaderError (''Exportability ('' @ exportability @ '') is invalid.'')))
      else (h\<lparr>Exportability := exportability\<rparr>, None))"

text \<open>
  \<open>Header.Dump\<close>, for a key length that is not negative (\<open>Wrap\<close> passes a maximum with
  \<open>len(key)\<close>).  For a version ID outside the table the block size is 0 and the
  remainder \<open>(2 + keyLen) % algoBlockSize\<close> panics.  The error of \<open>Blocks.Dump\<close> is
  dropped, as in the source.
\<close>

definition Header_Dump :: "Header \<Rightarrow> nat \<Rightarrow> (string \<times> error option) outcome" where
  "Header_Dump h keyLen =
     (let algoBlockSize = versionIDAlgoBlockSize (VersionID h) in
      if algoBlockSize = 0 then Panics
      else
        let padLen = algoBlockSize - ((2 + keyLen) mod algoBlockSize);
            (blocksNum, blocks, err0) = Blocks_Dump (Blocks h) (int algoBlockSize);
            kbLen = 16 + 4 + (keyLen * 2) + (padLen * 2)
                    + (versionIDKeyBlockMacLen (VersionID h) * 2) + length blocks
        in
        if kbLen > 9999 then
          Returns ([], Some (HeaderError (''Total key block length ('' @ sprint_d (int kbLen) @
             '') exceeds limit of 9999.'')))
        else
          Returns (VersionID h @ sprint_0d 4 kbLen @ KeyUsage h @ Algorithm h @ ModeOfUse h @
                   VersionNum h @ Exportability h @ sprint_0d 2 blocksNum @ Reserved h @ blocks,
                   None))"

text \<open>
  \<open>Header.Load\<close> returns the header as the setters have left it, the length and the
  error.  Its first statement slices \<open>header[:16]\<close>, which panics on a shorter input;
  the length test that follows is never reached with a short input.
\<close>

definition Header_Load :: "Header \<Rightarrow> string \<Rightarrow> (Header \<times> nat \<times> error option) outcome" where
  "Header_Load h header =
     (if length header < 16 then Panics
      else if \<not> asciiAlphanumeric (take 16 header) then
        Returns (h, 0, Some (HeaderError (''Header must be ASCII alphanumeric. Header: '' @
           [CHR 0x27] @ take 16 header @ [CHR 0x27])))
      else
        case SetVersionID h [header ! 0] of
          (h1, Some e) \<Rightarrow> Returns (h1, 0, Some e)
        | (h1, None) \<Rightarrow>
        case SetKeyUsage h1 (take 2 (drop 5 header)) of
          (h2, Some e) \<Rightarrow> Returns (h2, 0, Some e)
        | (h2, None) \<Rightarrow>
        case SetAlgorithm h2 [header ! 7] of
          (h3, Some e) \<Rightarrow> Returns (h3, 0, Some e)
        | (h3, None) \<Rightarrow>
        case SetModeOfUse h3 [header ! 8] of
          (h4, Some e) \<Rightarrow> Returns (h4, 0, Some e)
        | (h4, None) \<Rightarrow>
        case SetVersionNum h4 (take 2 (drop 9 header)) of
          (h5, Some e) \<Rightarrow> Returns (h5, 0, Some e)
        | (h5, None) \<Rightarrow>
        case SetExportability h5 [header ! 11] of
          (h6, Some e) \<Rightarrow> Returns (h6, 0, Some e)
        | (h6, None) \<Rightarrow>
          let h7 = h6\<lparr>Reserved := take 2 (drop 14 header)\<rparr> in
          if \<not> asciiNumeric (take 2 (drop 12 header)) then
            Returns (h7, 0, Some (HeaderError (''Number of blocks ('' @ take 2 (drop 12 header) @
               '') is invalid. Expecting 2 digits.'')))
          else
            let blocksNum = (int (of_char (header ! 12)) - 48) * 10 + (int (of_char (header ! 13)) - 48) in
            case Blocks_Load blocksNum (drop 16 header) of
              Panics \<Rightarrow> Panics
            | Returns (m, blocksLen, err) \<Rightarrow> Returns (h7\<lparr>Blocks := m\<rparr>, 16 + blocksLen, err))"

section \<open>Key derivation, MAC and the version profiles\<close>

record KeyBlock =
  kbpk :: bytes
  header :: Header

text \<open>
  Modelled from the spec: \<open>xor\<close> is not among the sources; it combines two byte strings
  of one length byte by byte (section 4.3).  \<open>compareMAC\<close> is not among the sources
  either; section 4.6 has it compare the two MACs (in constant time).
\<close>

definition xor :: "bytes \<Rightarrow> bytes \<Rightarrow> bytes" where
  "xor a b = map (\<lambda>(x, y). x XOR y) (zip a b)"

definition compareMAC :: "bytes \<Rightarrow> bytes \<Rightarrow> bool" where
  "compareMAC a b = (a = b)"

text \<open>
  \<open>generateCBCMAC\<close> of the key-block package is the CBC-MAC engine called with a key
  that is not nil.  Where the source drops its error (\<open>x, _ := ...\<close>) the value is nil
  on an error, the empty byte string.
\<close>

definition generateCBCMAC ::
  "ciphers \<Rightarrow> bytes \<Rightarrow> bytes \<Rightarrow> int \<Rightarrow> int \<Rightarrow> int \<Rightarrow> (error + bytes) outcome" where
  "generateCBCMAC c key data padding length0 algorithm =
     GenerateCBCMAC c (Some key) data padding length0 algorithm"

definition or_nil :: "error + bytes \<Rightarrow> bytes" where
  "or_nil r = (case r of Inl e \<Rightarrow> [] | Inr v \<Rightarrow> v)"

text \<open>
  \<open>dShiftLeft1\<close>: the bytes with the top bit of the first byte cleared, read as a
  big-endian number, doubled, and written back over the same number of bytes.  Indexing
  the first byte of an empty input panics.  \<open>shiftLeft1\<close> does the same through the
  helpers \<open>bytesToInt\<close> and \<open>intToBytes\<close>, which are not among the sources (modelled from
  the spec, section 4.3).
\<close>

definition be_to_int :: "bytes \<Rightarrow> int" where
  "be_to_int bs = foldl (\<lambda>acc b. acc * 256 + uint b) 0 bs"

fun be_int :: "nat \<Rightarrow> int \<Rightarrow> bytes" where
  "be_int 0 v = []"
| "be_int (Suc n) v = be_int n (v div 256) @ [of_int (v mod 256)]"

definition dShiftLeft1 :: "bytes \<Rightarrow> bytes outcome" where
  "dShiftLeft1 inBytes =
     (case inBytes of
        [] \<Rightarrow> Panics
      | b # rest \<Rightarrow> Returns (be_int (length inBytes) (be_to_int ((b AND 0x7F) # rest) * 2)))"

definition shiftLeft1 :: "bytes \<Rightarrow> bytes outcome" where
  "shiftLeft1 inBytes = dShiftLeft1 inBytes"

text \<open>
  The two CMAC subkeys from the encryption \<open>s\<close> of a zero block, with the constant
  \<open>r\<close>; shared by \<open>deriveDesCmacSubkey\<close> and \<open>deriveAESCMACSubkeys\<close>, which differ in the
  cipher, the block size and the constant only.  \<open>s[0]\<close> panics on an empty \<open>s\<close>.
\<close>

definition subkey_step :: "bytes \<Rightarrow> bytes \<Rightarrow> bytes outcome" where
  "subkey_step s r =
     (case s of
        [] \<Rightarrow> Panics
      | b # rest \<Rightarrow>
          (case dShiftLeft1 s of
             Panics \<Rightarrow> Panics
           | Returns sh \<Rightarrow> Returns (if b AND 0x80 \<noteq> 0 then xor sh r else sh)))"

definition cmac_subkeys :: "bytes \<Rightarrow> bytes \<Rightarrow> (bytes \<times> bytes) outcome" where
  "cmac_subkeys s r =
     (case subkey_step s r of
        Panics \<Rightarrow> Panics
      | Returns k1 \<Rightarrow>
          (case subkey_step k1 r of
             Panics \<Rightarrow> Panics
           | Returns k2 \<Rightarrow> Returns (k1, k2)))"

definition deriveDesCmacSubkey :: "ciphers \<Rightarrow> bytes \<Rightarrow> (error + bytes \<times> bytes) outcome" where
  "deriveDesCmacSubkey c key =
     (case EncryptTDSECB c key (replicate 8 0) of
        Inl e \<Rightarrow> Returns (Inl e)
      | Inr s \<Rightarrow>
          (case cmac_subkeys s [0, 0, 0, 0, 0, 0, 0, 0x1B] of
             Panics \<Rightarrow> Panics
           | Returns ks \<Rightarrow> Returns (Inr ks)))"

definition deriveAESCMACSubkeys :: "ciphers \<Rightarrow> bytes \<Rightarrow> (error + bytes \<times> bytes) outcome" where
  "deriveAESCMACSubkeys c key =
     (case EncryptAESECB c key (replicate 16 0) of
        Inl e \<Rightarrow> Returns (Inl e)
      | Inr s \<Rightarrow>
          (case cmac_subkeys s [0, 0, 0, 0, 0, 0, 0, 0, 0, 0, 0, 0, 0, 0, 0, 0x87] of
             Panics \<Rightarrow> Panics
           | Returns ks \<Rightarrow> Returns (Inr ks)))"

subsection \<open>Version B\<close>

text \<open>
  The loop of \<open>BDerive\<close> over the counters, with the last four bytes \<open>kdt\<close> of the
  key-derivation input and the keys gathered so far.
\<close>

fun BDerive_loop ::
  "ciphers \<Rightarrow> bytes \<Rightarrow> bytes \<Rightarrow> bytes \<Rightarrow> nat list \<Rightarrow> bytes \<Rightarrow> bytes \<Rightarrow> (error + bytes \<times> bytes) outcome" where
  "BDerive_loop c k k1 kdt [] kbek kbak = Returns (Inr (kbek, kbak))"
| "BDerive_loop c k k1 kdt (i # calls) kbek kbak =
     (case generateCBCMAC c k (xor ([of_nat i, 0x00, 0x00, 0x00] @ kdt) k1) 1 8 DES of
        Panics \<Rightarrow> Panics
      | Returns (Inl e) \<Rightarrow> Returns (Inl e)
      | Returns (Inr encKey) \<Rightarrow>
          (case generateCBCMAC c k (xor ([of_nat i, 0x00, 0x01, 0x00] @ kdt) k1) 1 8 DES of
             Panics \<Rightarrow> Panics
           | Returns (Inl e) \<Rightarrow> Returns (Inl e)
           | Returns (Inr authKey) \<Rightarrow>
               BDerive_loop c k k1 kdt calls (kbek @ encKey) (kbak @ authKey)))"

definition BDerive :: "ciphers \<Rightarrow> KeyBlock \<Rightarrow> (error + bytes \<times> bytes) outcome" where
  "BDerive c kb =
     (let (kdt, callsToCmac) =
            (if length (kbpk kb) = 16 then ([0x00, 0x00, 0x00, 0x80], [1, 2])
             else ([0x00, 0x01, 0x00, 0xC0], [1, 2, 3]))
      in case deriveDesCmacSubkey c (kbpk kb) of
           Panics \<Rightarrow> Panics
         | Returns (Inl e) \<Rightarrow> Returns (Inl e)
         | Returns (Inr (k1, k2)) \<Rightarrow> BDerive_loop c (kbpk kb) k1 kdt callsToCmac [] [])"

definition bGenerateMac :: "ciphers \<Rightarrow> bytes \<Rightarrow> string \<Rightarrow> bytes \<Rightarrow> (error + bytes) outcome" where
  "bGenerateMac c kbak hdr keyData =
     (case deriveDesCmacSubkey c kbak of
        Panics \<Rightarrow> Panics
      | Returns (Inl e) \<Rightarrow> Returns (Inl e)
      | Returns (Inr (km1, km2)) \<Rightarrow>
          let macData = bytes_of_string hdr @ keyData in
          if length macData \<ge> 8 then
            generateCBCMAC c kbak
              (take (length macData - 8) macData @ xor (drop (length macData - 8) macData) km1)
              1 8 DES
          else Returns (Inl (KeyBlockError ''macData is too short for the XOR operation'')))"

text \<open>
  The clear key data of the three wrap functions: the key length in bits as a big-endian
  \<open>uint16\<close>, the key, and \<open>padLen + extraPad\<close> bytes from \<open>rand.Read\<close>, which are the
  parameter \<open>rnd\<close> (byte \<open>i\<close> of the pad is \<open>rnd i\<close>).
\<close>

definition clear_key_data :: "nat \<Rightarrow> bytes \<Rightarrow> nat \<Rightarrow> (nat \<Rightarrow> byte) \<Rightarrow> bytes" where
  "clear_key_data blockSize key extraPad rnd =
     (let padLen = blockSize - ((2 + length key + extraPad) mod blockSize);
          pad = map rnd [0..<padLen + extraPad]
      in be_bytes 2 (of_nat (length key * 8) :: 16 word) @ key @ pad)"

text \<open>
  The end of the three unwrap functions: the key length in bits from the first two
  bytes, and the key.  \<open>clearKeyData[:2]\<close> panics on fewer than two bytes.
\<close>

definition extract_key :: "bytes \<Rightarrow> (error + bytes) outcome" where
  "extract_key clearKeyData =
     (if length clearKeyData < 2 then Panics
      else
        let keyLength = unat (clearKeyData ! 0) * 256 + unat (clearKeyData ! 1) in
        if keyLength mod 8 \<noteq> 0 then Returns (Inl (KeyBlockError ''Decrypted key is invalid.''))
        else
          let keyLength = keyLength div 8 in
          if length clearKeyData < keyLength + 2 then
            Returns (Inl (KeyBlockError ''Decrypted key is malformed.''))
          else Returns (Inr (take keyLength (drop 2 clearKeyData))))"

definition BWrap ::
  "ciphers \<Rightarrow> KeyBlock \<Rightarrow> string \<Rightarrow> bytes \<Rightarrow> nat \<Rightarrow> (nat \<Rightarrow> byte) \<Rightarrow> (error + string) outcome" where
  "BWrap c kb hdr key extraPad rnd =
     (if length (kbpk kb) \<noteq> 16 \<and> length (kbpk kb) \<noteq> 24 then
        Returns (Inl (KeyBlockError (''KBPK length ('' @ sprint_d (int (length (kbpk kb))) @
           '') must be Double or Triple DES for key block version '' @ VersionID (header kb) @ ''.'')))
      else
        case BDerive c kb of
          Panics \<Rightarrow> Panics
        | Returns d \<Rightarrow>
            let (kbek, kbak) = (case d of Inl e \<Rightarrow> ([], []) | Inr ks \<Rightarrow> ks);
                clearKeyData = clear_key_data 8 key extraPad rnd
            in case bGenerateMac c kbak hdr clearKeyData of
                 Panics \<Rightarrow> Panics
               | Returns m \<Rightarrow>
                   let mac = or_nil m in
                   case EncryptTDESCBC c kbek mac clearKeyData of
                     Inl e \<Rightarrow> Returns (Inl e)
                   | Inr encKey \<Rightarrow>
                       Returns (Inr (hdr @ EncodeToString encKey @ EncodeToString mac)))"

definition BUnwrap ::
  "ciphers \<Rightarrow> KeyBlock \<Rightarrow> string \<Rightarrow> bytes \<Rightarrow> bytes \<Rightarrow> (error + bytes) outcome" where
  "BUnwrap c kb hdr keyData receivedMac =
     (if length (kbpk kb) \<noteq> 16 \<and> length (kbpk kb) \<noteq> 24 then
        Returns (Inl (KeyBlockError (''KBPK length ('' @ sprint_d (int (length (kbpk kb))) @
           '') must be Double or Triple DES for key block version '' @ VersionID (header kb) @ ''.'')))
      else if length keyData < 8 \<or> length keyData mod 8 \<noteq> 0 then
        Returns (Inl (KeyBlockError (''Encrypted key is malformed. Key data: '' @
           [CHR 0x27] @ EncodeToString keyData @ [CHR 0x27])))
      else
        case BDerive c kb of
          Panics \<Rightarrow> Panics
        | Returns (Inl e) \<Rightarrow> Returns (Inl e)
        | Returns (Inr (kbek, kbak)) \<Rightarrow>
            (case DecryptTDESCBC c kbek receivedMac keyData of
               Inl e \<Rightarrow> Returns (Inl e)
             | Inr clearKeyData \<Rightarrow>
                 (case bGenerateMac c kbak hdr clearKeyData of
                    Panics \<Rightarrow> Panics
                  | Returns (Inl e) \<Rightarrow> Returns (Inl e)
                  | Returns (Inr mac) \<Rightarrow>
                      if mac \<noteq> receivedMac then
                        Returns (Inl (KeyBlockError ''Key block MAC doesn't match generated MAC.''))
                      else extract_key clearKeyData)))"

subsection \<open>Versions A and C\<close>

definition cDerive :: "KeyBlock \<Rightarrow> bytes \<times> bytes" where
  "cDerive kb =
     (xor (kbpk kb) (replicate (length (kbpk kb)) 0x45),
      xor (kbpk kb) (replicate (length (kbpk kb)) 0x4D))"

definition cGenerateMAC :: "ciphers \<Rightarrow> bytes \<Rightarrow> string \<Rightarrow> bytes \<Rightarrow> bytes outcome" where
  "cGenerateMAC c kbak hdr keyData =
     (case generateCBCMAC c kbak (bytes_of_string hdr @ keyData) 1 4 DES of
        Panics \<Rightarrow> Panics
      | Returns r \<Rightarrow> Returns (or_nil r))"

text \<open>
  \<open>[]byte(header)[:8]\<close> panics for a header of fewer than eight characters (taking the
  capacity of the converted slice to be its length).
\<close>

definition CWrap ::
  "ciphers \<Rightarrow> KeyBlock \<Rightarrow> string \<Rightarrow> bytes \<Rightarrow> nat \<Rightarrow> (nat \<Rightarrow> byte) \<Rightarrow> (error + string) outcome" where
  "CWrap c kb hdr key extraPad rnd =
     (if length (kbpk kb) \<noteq> 8 \<and> length (kbpk kb) \<noteq> 16 \<and> length (kbpk kb) \<noteq> 24 then
        Returns (Inl (KeyBlockError (''KBPK length ('' @ sprint_d (int (length (kbpk kb))) @
           '') must be Single, Double or Triple DES for key block version '' @
           VersionID (header kb) @ ''.'')))
      else
        let (kbek, kbak) = cDerive kb;
            clearKeyData = clear_key_data 8 key extraPad rnd
        in if length hdr < 8 then Panics
           else
             case EncryptTDESCBC c kbek (take 8 (bytes_of_string hdr)) clearKeyData of
               Inl e \<Rightarrow> Returns (Inl e)
             | Inr encKey \<Rightarrow>
                 (case cGenerateMAC c kbak hdr encKey of
                    Panics \<Rightarrow> Panics
                  | Returns mac \<Rightarrow>
                      Returns (Inr (hdr @ ToUpper (EncodeToString encKey)
                                        @ ToUpper (EncodeToString mac)))))"

definition CUnwrap ::
  "ciphers \<Rightarrow> KeyBlock \<Rightarrow> string \<Rightarrow> bytes \<Rightarrow> bytes \<Rightarrow> (error + bytes) outcome" where
  "CUnwrap c kb hdr keyData receivedMAC =
     (if length (kbpk kb) \<noteq> 8 \<and> length (kbpk kb) \<noteq> 16 \<and> length (kbpk kb) \<noteq> 24 then
        Returns (Inl (KeyBlockError (''KBPK length ('' @ sprint_d (int (length (kbpk kb))) @
           '') must be Single, Double or Triple DES for key block version '' @
           VersionID (header kb) @ ''.'')))
      else if length keyData < 8 \<or> length keyData mod 8 \<noteq> 0 then
        Returns (Inl (KeyBlockError (''Encrypted key is malformed. Key data: '' @
           [CHR 0x27] @ ToUpper (EncodeToString keyData) @ [CHR 0x27])))
      else
        let (kbek, kbak) = cDerive kb in
        case cGenerateMAC c kbak hdr keyData of
          Panics \<Rightarrow> Panics
        | Returns mac \<Rightarrow>
            if \<not> compareMAC mac receivedMAC then
              Returns (Inl (KeyBlockError ''Key block MAC doesn't match generated MAC.''))
            else if length hdr < 8 then Panics
            else
              case DecryptTDESCBC c kbek (bytes_of_string (take 8 hdr)) keyData of
                Inl e \<Rightarrow> Returns (Inl e)
              | Inr clearKeyData \<Rightarrow> extract_key clearKeyData)"

subsection \<open>Version D\<close>

text \<open>
  The loop of \<open>dDerive\<close>.  The source assigns \<open>kbak = append(kbek, encData2...)\<close>: the
  authentication key is rebuilt in every turn from the encryption key gathered so far.
  Both CBC-MAC errors are dropped.
\<close>

fun dDerive_loop ::
  "ciphers \<Rightarrow> bytes \<Rightarrow> bytes \<Rightarrow> bytes \<Rightarrow> nat list \<Rightarrow> bytes \<Rightarrow> bytes \<Rightarrow> (bytes \<times> bytes) outcome" where
  "dDerive_loop c k k2 kdt [] kbek kbak = Returns (kbek, kbak)"
| "dDerive_loop c k k2 kdt (i # calls) kbek kbak =
     (case generateCBCMAC c k (xor ([of_nat i, 0x00, 0x00, 0x00] @ kdt) k2) 1 16 AES of
        Panics \<Rightarrow> Panics
      | Returns r1 \<Rightarrow>
          let kbek1 = kbek @ or_nil r1 in
          (case generateCBCMAC c k (xor ([of_nat i, 0x00, 0x01, 0x00] @ kdt) k2) 1 16 AES of
             Panics \<Rightarrow> Panics
           | Returns r2 \<Rightarrow> dDerive_loop c k k2 kdt calls kbek1 (kbek1 @ or_nil r2)))"

text \<open>
  \<open>dDerive\<close>.  The error of the subkey derivation is dropped (\<open>k2\<close> is then nil).  The
  final slices \<open>kbak[len(kbak)-len(kbpk):]\<close> and \<open>kbek[:len(kbpk)]\<close> panic when the keys
  gathered are shorter than the KBPK.
\<close>

definition dDerive :: "ciphers \<Rightarrow> KeyBlock \<Rightarrow> (error + bytes \<times> bytes) outcome" where
  "dDerive c kb =
     (let n = length (kbpk kb) in
      if n \<noteq> 16 \<and> n \<noteq> 24 \<and> n \<noteq> 32 then
        Returns (Inl (PlainError (''unsupported KBPK length: '' @ sprint_d (int n))))
      else
        let (kdt, callsToCmac) =
              (if n = 16 then ([0x00, 0x02, 0x00, 0x80, 0x80, 0, 0, 0, 0, 0, 0, 0], [1])
               else if n = 24 then ([0x00, 0x03, 0x00, 0xC0, 0x80, 0, 0, 0, 0, 0, 0, 0], [1, 2])
               else ([0x00, 0x04, 0x01, 0x00, 0x80, 0, 0, 0, 0, 0, 0, 0], [1, 2]))
        in case deriveAESCMACSubkeys c (kbpk kb) of
             Panics \<Rightarrow> Panics
           | Returns sk \<Rightarrow>
               let k2 = (case sk of Inl e \<Rightarrow> [] | Inr (k1, k2) \<Rightarrow> k2) in
               (case dDerive_loop c (kbpk kb) k2 kdt callsToCmac [] [] of
                  Panics \<Rightarrow> Panics
                | Returns (kbek, kbak) \<Rightarrow>
                    if length kbak < n \<or> length kbek < n then Panics
                    else Returns (Inr (take n kbek, drop (length kbak - n) kbak))))"

definition dGenerateMAC :: "ciphers \<Rightarrow> bytes \<Rightarrow> bytes \<Rightarrow> bytes \<Rightarrow> (error + bytes) outcome" where
  "dGenerateMAC c kbak hdr keyData =
     (case deriveAESCMACSubkeys c kbak of
        Panics \<Rightarrow> Panics
      | Returns (Inl e) \<Rightarrow> Returns (Inl e)
      | Returns (Inr (k1, k2)) \<Rightarrow>
          let macData = hdr @ keyData in
          if length macData < 16 then Returns (Inl (PlainError ''macData is too short''))
          else
            generateCBCMAC c kbak
              (take (length macData - 16) macData @ xor (drop (length macData - 16) macData) k1)
              1 16 AES)"

definition DWrap ::
  "ciphers \<Rightarrow> KeyBlock \<Rightarrow> string \<Rightarrow> bytes \<Rightarrow> nat \<Rightarrow> (nat \<Rightarrow> byte) \<Rightarrow> (error + string) outcome" where
  "DWrap c kb hdr key extraPad rnd =
     (if length (kbpk kb) \<noteq> 16 \<and> length (kbpk kb) \<noteq> 24 \<and> length (kbpk kb) \<noteq> 32 then
        Returns (Inl (KeyBlockError (''KBPK length ('' @ sprint_d (int (length (kbpk kb))) @
           '') must be AES-128, AES-192 or AES-256 for key block version D.'')))
      else
        case dDerive c kb of
          Panics \<Rightarrow> Panics
        | Returns (Inl e) \<Rightarrow> Returns (Inl e)
        | Returns (Inr (kbek, kbak)) \<Rightarrow>
            let clearKeyData = clear_key_data 16 key extraPad rnd in
            case dGenerateMAC c kbak (bytes_of_string hdr) clearKeyData of
              Panics \<Rightarrow> Panics
            | Returns (Inl e) \<Rightarrow> Returns (Inl e)
            | Returns (Inr mac) \<Rightarrow>
                (case EncryptAESCBC c kbek mac clearKeyData of
                   Inl e \<Rightarrow> Returns (Inl e)
                 | Inr encKey \<Rightarrow>
                     Returns (Inr (hdr @ EncodeToString encKey @ EncodeToString mac))))"

definition DUnwrap ::
  "ciphers \<Rightarrow> KeyBlock \<Rightarrow> string \<Rightarrow> bytes \<Rightarrow> bytes \<Rightarrow> (error + bytes) outcome" where
  "DUnwrap c kb hdr keyData receivedMAC =
     (if length (kbpk kb) \<noteq> 16 \<and> length (kbpk kb) \<noteq> 24 \<and> length (kbpk kb) \<noteq> 32 then
        Returns (Inl (KeyBlockError (''KBPK length ('' @ sprint_d (int (length (kbpk kb))) @
           '') must be AES-128, AES-192 or AES-256 for key block version '' @
           VersionID (header kb) @ ''.'')))
      else if length keyData < 16 \<or> length keyData mod 16 \<noteq> 0 then
        Returns (Inl (KeyBlockError (''Encrypted key is malformed. Key data: '' @
           [CHR 0x27] @ ToUpper (EncodeToString keyData) @ [CHR 0x27])))
      else
        case dDerive c kb of
          Panics \<Rightarrow> Panics
        | Returns d \<Rightarrow>
            let (kbek, kbak) = (case d of Inl e \<Rightarrow> ([], []) | Inr ks \<Rightarrow> ks) in
            case DecryptAESCBC c kbek receivedMAC keyData of
              Inl e \<Rightarrow> Returns (Inl e)
            | Inr clearKeyData \<Rightarrow>
                (case dGenerateMAC c kbak (bytes_of_string hdr) clearKeyData of
                   Panics \<Rightarrow> Panics
                 | Returns m \<Rightarrow>
                     if or_nil m \<noteq> receivedMAC then
                       Returns (Inl (KeyBlockError ''Key block MAC doesn't match generated MAC.''))
                     else extract_key clearKeyData))"

section \<open>The key-block operations\<close>

text \<open>
  \<open>Wrap\<close>.  \<open>maskedKeyLen\<close> is the optional length (\<open>None\<close> for nil).  The error of
  \<open>Header.Dump\<close> is dropped, as in the source: the wrap function then gets the empty
  header.
\<close>

definition Wrap ::
  "ciphers \<Rightarrow> KeyBlock \<Rightarrow> bytes \<Rightarrow> int option \<Rightarrow> (nat \<Rightarrow> byte) \<Rightarrow> (error + string) outcome" where
  "Wrap c kb key maskedKeyLen rnd =
     (let v = VersionID (header kb) in
      if v \<noteq> ''A'' \<and> v \<noteq> ''B'' \<and> v \<noteq> ''C'' \<and> v \<noteq> ''D'' then
        Returns (Inl (PlainError (''Key block version ID ('' @ v @ '') is not supported'')))
      else
        let wrappedMaskedLen =
              (case maskedKeyLen of
                 None \<Rightarrow>
                   (case algoIDMaxKeyLen (Algorithm (header kb)) of
                      Some maxLen \<Rightarrow> max maxLen (length key)
                    | None \<Rightarrow> length key)
               | Some ml \<Rightarrow> nat (max ml (int (length key))))
        in case Header_Dump (header kb) wrappedMaskedLen of
             Panics \<Rightarrow> Panics
           | Returns (headerDump, err0) \<Rightarrow>
               if v = ''B'' then BWrap c kb headerDump key (wrappedMaskedLen - length key) rnd
               else if v = ''D'' then DWrap c kb headerDump key (wrappedMaskedLen - length key) rnd
               else CWrap c kb headerDump key (wrappedMaskedLen - length key) rnd)"

text \<open>
  \<open>Unwrap\<close> returns the header as \<open>Header.Load\<close> has left it together with its result.
  The error of \<open>Header.Load\<close> is dropped, as in the source; a panic of \<open>Header.Load\<close> is
  a panic of \<open>Unwrap\<close>.  \<open>len(keyBlock) % blockSize\<close> panics when the header's version ID
  is outside the table.
\<close>

definition Unwrap :: "ciphers \<Rightarrow> KeyBlock \<Rightarrow> string \<Rightarrow> (Header \<times> (error + bytes)) outcome" where
  "Unwrap c kb keyBlock =
     (if length keyBlock < 5 then
        Returns (header kb,
                 Inl (KeyBlockError ''Key block header length is malformed. Expecting 4 digits.''))
      else
        case Header_Load (header kb) keyBlock of
          Panics \<Rightarrow> Panics
        | Returns (h, headerLen, err0) \<Rightarrow>
            let kb1 = kb\<lparr>header := h\<rparr> in
            if \<not> asciiNumeric (take 4 (drop 1 keyBlock)) then
              Returns (h, Inl (KeyBlockError (''Key block header length ('' @ take 4 (drop 1 keyBlock) @
                 '') is malformed. Expecting 4 digits.'')))
            else
              let keyBlockLen = stringToInt (take 4 (drop 1 keyBlock)) in
              if keyBlockLen \<noteq> int (length keyBlock) then
                Returns (h, Inl (KeyBlockError (''Key block header length ('' @ sprint_d keyBlockLen @
                   '') doesn't match input data length ('' @ sprint_d (int (length keyBlock)) @ '').'')))
              else
                let blockSize = versionIDAlgoBlockSize (VersionID h) in
                if blockSize = 0 then Panics
                else if length keyBlock mod blockSize \<noteq> 0 then
                  Returns (h, Inl (KeyBlockError (''Key block length ('' @ sprint_d (int (length keyBlock)) @
                     '') must be multiple of '' @ sprint_d (int blockSize) @
                     '' for key block version '' @ VersionID h @ ''.'')))
                else
                  let algoMacLen = versionIDKeyBlockMacLen (VersionID h) in
                  if headerLen < length keyBlock then
                    let receivedMacS0 = drop headerLen keyBlock in
                    if length receivedMacS0 > algoMacLen * 2 then
                      let receivedMacS = drop (length receivedMacS0 - algoMacLen * 2) receivedMacS0 in
                      case DecodeString receivedMacS of
                        None \<Rightarrow>
                          Returns (h, Inl (KeyBlockError (''Key block MAC must be valid hexchars. MAC: '' @
                             [CHR 0x27] @ receivedMacS @ [CHR 0x27])))
                      | Some receivedMac \<Rightarrow>
                          if length receivedMac \<noteq> algoMacLen then
                            Returns (h, Inl (KeyBlockError (''Key block MAC is malformed. Received '' @
                               sprint_d (int (length receivedMacS)) @ '' bytes MAC. Expecting '' @
                               sprint_d (int (algoMacLen * 2)) @ '' bytes for key block version '' @
                               VersionID h @ ''. MAC: '' @ [CHR 0x27] @ receivedMacS @ [CHR 0x27])))
                          else
                            let keyDataS = take (length receivedMacS0 - algoMacLen * 2) receivedMacS0 in
                            case DecodeString keyDataS of
                              None \<Rightarrow>
                                Returns (h, Inl (KeyBlockError (''Encrypted key must be valid hexchars. Key data: '' @
                                   [CHR 0x27] @ keyDataS @ [CHR 0x27])))
                            | Some keyData \<Rightarrow>
                                let v = VersionID h; hdr = take headerLen keyBlock in
                                case (if v = ''B'' then BUnwrap c kb1 hdr keyData receivedMac
                                      else if v = ''D'' then DUnwrap c kb1 hdr keyData receivedMac
                                      else CUnwrap c kb1 hdr keyData receivedMac) of
                                  Panics \<Rightarrow> Panics
                                | Returns r \<Rightarrow> Returns (h, r)
                    else
                      Returns (h, Inl (KeyBlockError (''Key block MAC must be valid hexchars. MAC: '' @
                         [CHR 0x27] @ receivedMacS0 @ [CHR 0x27])))
                  else Returns (h, Inl (KeyBlockError ''headerLen is out of bounds'')))"

section \<open>The collaborators' contract\<close>

text \<open>
  What the key-block code relies on (spec, section 6): for a key of an accepted size, an
  IV of one block and block-aligned data, CBC encryption succeeds, keeps the length and
  is inverted by CBC decryption; ECB encryption of one block gives one block.
\<close>

definition cbc_contract ::
  "(bytes \<Rightarrow> bytes \<Rightarrow> bytes \<Rightarrow> error + bytes) \<Rightarrow> (bytes \<Rightarrow> bytes \<Rightarrow> bytes \<Rightarrow> error + bytes)
   \<Rightarrow> nat list \<Rightarrow> nat \<Rightarrow> bool" where
  "cbc_contract enc dec sizes bs =
     (\<forall>key iv data. length key \<in> set sizes \<and> length iv = bs \<and> length data mod bs = 0 \<longrightarrow>
        (\<exists>ct. enc key iv data = Inr ct \<and> length ct = length data \<and> dec key iv ct = Inr data))"

definition ecb_contract :: "(bytes \<Rightarrow> bytes \<Rightarrow> error + bytes) \<Rightarrow> nat list \<Rightarrow> nat \<Rightarrow> bool" where
  "ecb_contract enc sizes bs =
     (\<forall>key blk. length key \<in> set sizes \<and> length blk = bs \<longrightarrow>
        (\<exists>ct. enc key blk = Inr ct \<and> length ct = bs))"

definition cipher_contract :: "ciphers \<Rightarrow> bool" where
  "cipher_contract c =
     (cbc_contract (EncryptTDESCBC c) (DecryptTDESCBC c) [8, 16, 24] 8
      \<and> ecb_contract (EncryptTDSECB c) [8, 16, 24] 8
      \<and> cbc_contract (EncryptAESCBC c) (DecryptAESCBC c) [16, 24, 32] 16
      \<and> ecb_contract (EncryptAESECB c) [16, 24, 32] 16)"

text \<open>
  A stand-in for the collaborators that meets the contract, used only to run the model
  on concrete inputs: it checks the sizes and XORs every data byte with the first key
  byte.
\<close>

definition standin_cbc :: "nat list \<Rightarrow> nat \<Rightarrow> bytes \<Rightarrow> bytes \<Rightarrow> bytes \<Rightarrow> error + bytes" where
  "standin_cbc sizes bs key iv data =
     (if length key \<in> set sizes \<and> length iv = bs \<and> length data mod bs = 0
      then Inr (map (\<lambda>b. b XOR hd key) data)
      else Inl (PlainError ''invalid key, IV or data size''))"

definition standin_ecb :: "nat list \<Rightarrow> nat \<Rightarrow> bytes \<Rightarrow> bytes \<Rightarrow> error + bytes" where
  "standin_ecb sizes bs key blk =
     (if length key \<in> set sizes \<and> length blk = bs
      then Inr (map (\<lambda>b. b XOR hd key) blk)
      else Inl (PlainError ''invalid key or data size''))"

definition standin_ciphers :: ciphers where
  "standin_ciphers =
     \<lparr>EncryptTDESCBC = standin_cbc [8, 16, 24] 8, DecryptTDESCBC = standin_cbc [8, 16, 24] 8,
      EncryptTDSECB = standin_ecb [8, 16, 24] 8,
      EncryptAESCBC = standin_cbc [16, 24, 32] 16, DecryptAESCBC = standin_cbc [16, 24, 32] 16,
      EncryptAESECB = standin_ecb [16, 24, 32] 16\<rparr>"

text \<open>
  Sequences of operations on one block mapping, for statements about every sequence of
  \<open>Set\<close>, \<open>Load\<close> and \<open>Delete\<close> calls.  \<open>Load\<close> replaces the mapping, also when it returns
  an error; a panic ends the run.
\<close>

datatype blocks_op = OpSet string string | OpLoad int string | OpDelete string

fun apply_op :: "Blocks \<Rightarrow> blocks_op \<Rightarrow> Blocks outcome" where
  "apply_op b (OpSet key item) = Returns (fst (Blocks_Set b key item))"
| "apply_op b (OpLoad blocksNum blocks) =
     (case Blocks_Load blocksNum blocks of
        Panics \<Rightarrow> Panics
      | Returns (m, i, err) \<Rightarrow> Returns m)"
| "apply_op b (OpDelete key) = Returns (Blocks_Delete b key)"

fun run_ops :: "Blocks \<Rightarrow> blocks_op list \<Rightarrow> Blocks outcome" where
  "run_ops b [] = Returns b"
| "run_ops b (x # xs) =
     (case apply_op b x of Panics \<Rightarrow> Panics | Returns b' \<Rightarrow> run_ops b' xs)"

fun sets_PB :: "blocks_op \<Rightarrow> bool" where
  "sets_PB (OpSet key item) = (key = ''PB'')"
| "sets_PB (OpLoad blocksNum blocks) = False"
| "sets_PB (OpDelete key) = False"

section \<open>Formatting and parsing lemmas\<close>

lemma lt16_cases: "d < (16::nat) \<Longrightarrow> d \<in> {0,1,2,3,4,5,6,7,8,9,10,11,12,13,14,15}"
  by simp presburger

lemma hexdigit_vals:
  "hexdigit 0 = CHR ''0''" "hexdigit 1 = CHR ''1''" "hexdigit (Suc 0) = CHR ''1''" "hexdigit 2 = CHR ''2''" "hexdigit 3 = CHR ''3''"
  "hexdigit 4 = CHR ''4''" "hexdigit 5 = CHR ''5''" "hexdigit 6 = CHR ''6''" "hexdigit 7 = CHR ''7''"
  "hexdigit 8 = CHR ''8''" "hexdigit 9 = CHR ''9''" "hexdigit 10 = CHR ''a''" "hexdigit 11 = CHR ''b''"
  "hexdigit 12 = CHR ''c''" "hexdigit 13 = CHR ''d''" "hexdigit 14 = CHR ''e''" "hexdigit 15 = CHR ''f''"
  by (simp_all add: hexdigit_def)

lemma fromHexChar_hexdigit: "d < 16 \<Longrightarrow> fromHexChar (hexdigit d) = Some d"
  by (drule lt16_cases) (auto simp: hexdigit_vals fromHexChar_def)

lemma fromHexChar_upper_hexdigit: "d < 16 \<Longrightarrow> fromHexChar (upper_char (hexdigit d)) = Some d"
  by (drule lt16_cases) (auto simp: hexdigit_vals fromHexChar_def upper_char_def)

lemma is_hex_hexdigit: "d < 16 \<Longrightarrow> is_hex (hexdigit d)" "d < 16 \<Longrightarrow> is_hex (upper_char (hexdigit d))"
  by (simp_all add: is_hex_def fromHexChar_hexdigit fromHexChar_upper_hexdigit)

lemma EncodeToString_single: "EncodeToString [b] = [hexdigit (unat b div 16), hexdigit (unat b mod 16)]"
  by (simp add: EncodeToString_def)

lemma hexToInt_Encode:
  assumes "n \<le> 255"
  shows "hexToInt (EncodeToString [of_nat n :: byte]) = int n"
proof -
  have u: "unat (of_nat n :: byte) = n" using assms by (simp add: unat_of_nat take_bit_nat_eq_self)
  have d: "n div 16 < 16" using assms by auto
  have "int (n div 16) * 16 + int (n mod 16) = int n"
    by (metis of_nat_add of_nat_mult of_nat_numeral div_mult_mod_eq)
  then show ?thesis
    by (simp add: EncodeToString_single u hexToInt_def isAsciiHex_def hexval_def hexdig_val_def
        fromHexChar_hexdigit is_hex_hexdigit d)
qed

lemma length_Encode_single: "length (EncodeToString [b]) = 2"
  by (simp add: EncodeToString_single)

lemma hexval_Nil: "hexval [] = 0" by (simp add: hexval_def)

lemma hexval_snoc: "hexval (xs @ [c]) = hexval xs * 16 + hexdig_val c"
  by (simp add: hexval_def)

lemma hexval_zeros: "hexval (replicate m CHR ''0'' @ s) = hexval s"
proof -
  have z: "foldl (\<lambda>acc c. acc * 16 + hexdig_val c) 0 (replicate m CHR ''0'') = 0"
    by (induction m) (simp_all add: hexdig_val_def fromHexChar_def)
  show ?thesis by (simp add: hexval_def z)
qed

lemma hexdig_val_upper: "d < 16 \<Longrightarrow> hexdig_val (upper_char (hexdigit d)) = int d"
  by (simp add: hexdig_val_def fromHexChar_upper_hexdigit)

lemma hex_digits_all_hex: "list_all is_hex (hex_digits f n)"
  by (induction f arbitrary: n) (simp_all add: is_hex_hexdigit)

lemma hexval_hex_digits: "n < f \<Longrightarrow> hexval (hex_digits f n) = int n"
proof (induction f arbitrary: n)
  case 0
  then show ?case by simp
next
  case (Suc f)
  show ?case
  proof (cases "n < 16")
    case True
    then show ?thesis using hexval_snoc [of "[]"] by (simp add: hexval_Nil hexdig_val_upper)
  next
    case False
    then have "n div 16 < f" using Suc.prems by auto
    then have "hexval (hex_digits f (n div 16)) = int (n div 16)" by (rule Suc.IH)
    moreover have "int (n div 16) * 16 + int (n mod 16) = int n"
      by (metis of_nat_add of_nat_mult of_nat_numeral div_mult_mod_eq)
    ultimately show ?thesis using False by (simp add: hexval_snoc hexdig_val_upper)
  qed
qed

lemma length_hex_digits: "0 < k \<Longrightarrow> n < 16 ^ k \<Longrightarrow> n < f \<Longrightarrow> length (hex_digits f n) \<le> k"
proof (induction f arbitrary: n k)
  case 0
  then show ?case by simp
next
  case (Suc f)
  show ?case
  proof (cases "n < 16")
    case True
    then show ?thesis using Suc.prems by simp
  next
    case False
    then obtain k' where k: "k = Suc k'" "0 < k'"
      using Suc.prems by (cases k; cases "k - 1") auto
    have "n div 16 < 16 ^ k'" using Suc.prems k by (simp add: less_mult_imp_div_less)
    moreover have "n div 16 < f" using Suc.prems False by auto
    ultimately have "length (hex_digits f (n div 16)) \<le> k'" using k Suc.IH by blast
    then show ?thesis using False k by simp
  qed
qed

lemma length_hex_digits_pos: "0 < f \<Longrightarrow> 0 < length (hex_digits f n)"
  by (cases f) auto

lemma length_sprint_0X: "0 < w \<Longrightarrow> n < 16 ^ w \<Longrightarrow> length (sprint_0X w n) = w"
  using length_hex_digits [of w n "Suc n"] by (simp add: sprint_0X_def Let_def del: hex_digits.simps)

lemma hexval_sprint_0X: "hexval (sprint_0X w n) = int n"
  by (simp add: sprint_0X_def Let_def hexval_zeros hexval_hex_digits del: hex_digits.simps)

lemma is_hex_zero: "is_hex CHR ''0''" by (simp add: is_hex_def fromHexChar_def)

lemma isAsciiHex_sprint_0X: "isAsciiHex (sprint_0X w n)"
  using hex_digits_all_hex [of "Suc n" n]
  by (auto simp: sprint_0X_def Let_def isAsciiHex_def list_all_iff is_hex_zero simp del: hex_digits.simps)

lemma sprint_0X_nonempty: "sprint_0X w n \<noteq> []"
  using length_hex_digits_pos [of "Suc n" n] by (simp add: sprint_0X_def Let_def del: hex_digits.simps)

lemma hexToInt_sprint_0X: "hexToInt (sprint_0X w n) = int n"
  by (simp add: hexToInt_def isAsciiHex_sprint_0X sprint_0X_nonempty hexval_sprint_0X)

lemma hd_sprint_0X: "hd (sprint_0X w n) \<noteq> CHR ''-'' \<and> hd (sprint_0X w n) \<noteq> CHR ''+''"
proof -
  have "is_hex (hd (sprint_0X w n))"
    using isAsciiHex_sprint_0X [of w n] sprint_0X_nonempty [of w n]
    by (cases "sprint_0X w n") (auto simp: isAsciiHex_def)
  then show ?thesis by (auto simp: is_hex_def fromHexChar_def)
qed

lemma ParseInt16_sprint_0X: "n < 2 ^ 63 \<Longrightarrow> ParseInt16 (sprint_0X w n) = Inr (int n)"
proof -
  assume "n < 2 ^ 63"
  then have "int n \<le> 2 ^ 63 - 1"
    by (metis of_nat_less_iff of_nat_numeral of_nat_power zle_diff1_eq)
  then show ?thesis
    using hd_sprint_0X [of w n]
    by (simp add: ParseInt16_def Let_def sprint_0X_nonempty isAsciiHex_sprint_0X hexval_sprint_0X)
qed

section \<open>Parsing one block\<close>

lemma load_block_plain:
  assumes "length pre = i" "length blockID = 2" "asciiAlphanumeric blockID"
    and "length L = 2" "hexToInt L = int (length data) + 4"
    and "2 \<le> length data + length post"
    and "i + length data + 4 < 2 ^ 63"
  shows "load_block (pre @ blockID @ L @ data @ post) i
         = Returns (Inr (blockID, data, i + 4 + length data))"
proof -
  have i: "i = length pre" using assms(1) by simp
  have b: "int (length pre) + int (length data) \<le> 9223372036854775803"
    using assms(7) unfolding i by simp
  show ?thesis
    unfolding load_block_def i using assms(2-6) b
    by (simp add: Let_def)
qed

lemma ParseInt16_02: "ParseInt16 ''02'' = Inr 2"
  by (simp add: ParseInt16_def isAsciiHex_def is_hex_def fromHexChar_def hexval_def hexdig_val_def)

lemma hexToInt_00: "hexToInt ''00'' = 0"
  by (simp add: hexToInt_def isAsciiHex_def is_hex_def fromHexChar_def hexval_def hexdig_val_def)

lemma isAsciiHex_02: "isAsciiHex ''02''"
  by (simp add: isAsciiHex_def is_hex_def fromHexChar_def)

lemma parseExtendedLen_ok:
  assumes "drop k s = ''02'' @ X @ rest" "length X = 4" "isAsciiHex X" "ParseInt16 X = Inr v"
  shows "parseExtendedLen blockID s k = Returns (v - 10, k + 6, None)"
proof -
  have "length (drop k s) = 6 + length rest" using assms(1,2) by simp
  then have len: "k + 6 + length rest = length s" by simp
  have t2: "take 2 (drop k s) = ''02''" using assms(1) by simp
  have d2: "drop (k + 2) s = X @ rest"
    using assms(1) by (metis add.commute append_Cons append_Nil drop_drop drop_Suc_Cons drop0 numeral_2_eq_2)
  have t4: "take 4 (drop (k + 2) s) = X" using d2 assms(2) by simp
  show ?thesis
    unfolding parseExtendedLen_def using len assms(2,3,4) t2 t4
    by (simp add: Let_def isAsciiHex_02 ParseInt16_02)
qed

lemma load_block_ext:
  assumes "length pre = i" "length blockID = 2" "asciiAlphanumeric blockID"
    and "length data + 10 \<le> 0xFFFF"
    and "i + length data + 10 < 2 ^ 63"
  shows "load_block (pre @ blockID @ ''0002'' @ sprint_0X 4 (length data + 10) @ data @ post) i
         = Returns (Inr (blockID, data, i + 10 + length data))"
proof -
  have i: "i = length pre" using assms(1) by simp
  define X where "X = sprint_0X 4 (length data + 10)"
  define s where "s = pre @ blockID @ ''0002'' @ X @ data @ post"
  have lx: "length X = 4" unfolding X_def using assms(4) by (simp add: length_sprint_0X)
  have hx: "isAsciiHex X" unfolding X_def by (rule isAsciiHex_sprint_0X)
  have px: "ParseInt16 X = Inr (int (length data) + 10)"
    unfolding X_def using assms(4) by (simp add: ParseInt16_sprint_0X)
  have b: "int (length pre) + int (length data) \<le> 9223372036854775797"
    using assms(5) unfolding i by simp
  have ls: "length s = length pre + 10 + length data + length post"
    unfolding s_def using assms(2) lx by simp
  have d0: "take 2 (drop (length pre) s) = blockID" unfolding s_def using assms(2) by simp
  have d2: "take 2 (drop (length pre + 2) s) = ''00''" unfolding s_def using assms(2) by simp
  have d4: "drop (length pre + 4) s = ''02'' @ X @ (data @ post)"
    unfolding s_def using assms(2) by simp
  have pe: "parseExtendedLen blockID s (length pre + 4) = Returns (int (length data), length pre + 4 + 6, None)"
    using parseExtendedLen_ok [OF d4 lx hx px] by simp
  have d10: "drop (length pre + 4 + 6) s = data @ post"
    unfolding s_def using assms(2) lx by simp
  have e4: "Suc (Suc (Suc (Suc (length pre)))) = length pre + 4" by simp
  have pe': "parseExtendedLen blockID s (Suc (Suc (Suc (Suc (length pre)))))
      = Returns (int (length data), length pre + 4 + 6, None)"
    unfolding e4 by (rule pe)
  have "load_block s (length pre) = Returns (Inr (blockID, data, length pre + 10 + length data))"
    unfolding load_block_def using assms(3) b ls d0 d2 pe' d10
    by (simp add: Let_def hexToInt_00 add.assoc)
  then show ?thesis unfolding s_def X_def i .
qed

section \<open>Padding mode 3\<close>

text \<open>
  Claim C8.  Mode 3 is claimed to return, for every positive block size, one block that
  holds the bit length of the data as a big-endian integer over the whole block, followed
  by the Mode-1 padding.  \<open>padISO3\<close> writes the length with \<open>PutUint64\<close> into the first
  eight bytes of the block, so for the AES block size 16 the one-byte input \<open>01\<close> gives
  the length block \<open>00 00 00 00 00 00 00 08 00 .. 00\<close> and not \<open>00 .. 00 08\<close>.
\<close>

theorem padISO3_block16_left_aligned:
  "padISO3 [1] 16 = [0,0,0,0,0,0,0,8, 0,0,0,0,0,0,0,0] @ [1] @ replicate 15 0
   \<and> mode3_as_claimed [1] 16 = [0,0,0,0,0,0,0,0, 0,0,0,0,0,0,0,8] @ [1] @ replicate 15 0
   \<and> padISO3 [1] 16 \<noteq> mode3_as_claimed [1] 16"
  by code_simp

section \<open>The CBC-MAC engine's argument checks\<close>

text \<open>
  Claim C7.  The engine is claimed to return an invalid-argument error whenever the
  padding mode is outside 1, 2, 3.  \<open>GenerateCBCMAC\<close> rejects \<open>padding == 0\<close> and
  \<open>padding > 3\<close> only: with a negative padding mode, a non-nil key and non-empty data it
  looks the mode up in \<open>_padDispatch\<close>, gets a nil function and panics on the call,
  whatever the cipher collaborators are.
\<close>

theorem GenerateCBCMAC_negative_padding_panics:
  "GenerateCBCMAC c (Some [1,2,3,4,5,6,7,8]) [0] (- 1) 8 DES = Panics"
  by (simp add: GenerateCBCMAC_def)

section \<open>The pad block ID in the mapping\<close>

lemma load_loop_no_PB:
  "map_of m ''PB'' = None \<Longrightarrow> load_loop n s i m = Returns (m', k, e) \<Longrightarrow> map_of m' ''PB'' = None"
proof (induction n arbitrary: i m)
  case 0
  then show ?case by simp
next
  case (Suc n)
  show ?case
  proof (cases "load_block s i")
    case Panics
    then show ?thesis using Suc.prems by simp
  next
    case (Returns r)
    show ?thesis
    proof (cases r)
      case (Inl err)
      then show ?thesis using Suc.prems Returns by simp
    next
      case (Inr t)
      obtain blockID blockData i' where t: "t = (blockID, blockData, i')" by (cases t)
      let ?m = "if blockID \<noteq> ''PB'' then AList.update blockID blockData m else m"
      have "map_of ?m ''PB'' = None" using Suc.prems(1) by (simp add: update_conv')
      moreover have "load_loop n s i' ?m = Returns (m', k, e)"
        using Suc.prems(2) Returns Inr t by simp
      ultimately show ?thesis by (rule Suc.IH)
    qed
  qed
qed

lemma Blocks_Load_no_PB: "Blocks_Load n s = Returns (m', k, e) \<Longrightarrow> map_of m' ''PB'' = None"
  unfolding Blocks_Load_def by (rule load_loop_no_PB [of "[]"]) simp_all

lemma apply_op_no_PB:
  "map_of b ''PB'' = None \<Longrightarrow> \<not> sets_PB x \<Longrightarrow> apply_op b x = Returns b' \<Longrightarrow> map_of b' ''PB'' = None"
proof (cases x)
  case (OpSet key item)
  assume "map_of b ''PB'' = None" "\<not> sets_PB x" "apply_op b x = Returns b'"
  then show ?thesis using OpSet
    by (auto simp: Blocks_Set_def update_conv' split: if_splits)
next
  case (OpLoad n s)
  assume "apply_op b x = Returns b'"
  then show ?thesis using OpLoad
    by (auto split: outcome.splits dest: Blocks_Load_no_PB)
next
  case (OpDelete key)
  assume "map_of b ''PB'' = None" "apply_op b x = Returns b'"
  then show ?thesis using OpDelete by (auto simp: Blocks_Delete_def delete_conv')
qed

text \<open>
  Claim C6, as amended.  \<open>Blocks.Load\<close> never stores a parsed \<open>PB\<close> block and
  \<open>Blocks.Delete\<close> adds nothing, so a mapping without \<open>PB\<close> stays without it through
  every sequence of \<open>Set\<close>, \<open>Load\<close> and \<open>Delete\<close> calls in which no \<open>Set\<close> names the
  ID \<open>PB\<close>.
\<close>

theorem PB_absent_unless_Set:
  "map_of b ''PB'' = None \<Longrightarrow> \<not> list_ex sets_PB ops \<Longrightarrow> run_ops b ops = Returns b'
   \<Longrightarrow> map_of b' ''PB'' = None"
proof (induction ops arbitrary: b)
  case Nil
  then show ?case by simp
next
  case (Cons x xs)
  from Cons.prems(3) obtain b1 where a: "apply_op b x = Returns b1" and r: "run_ops b1 xs = Returns b'"
    by (auto split: outcome.splits)
  have "map_of b1 ''PB'' = None" using Cons.prems(1,2) a by (auto intro: apply_op_no_PB)
  then show ?case using Cons.IH [of b1] Cons.prems(2) r by simp
qed

text \<open>
  Claim C6 as stated fails: \<open>Blocks.Set\<close> checks the ID's length and alphabet and the
  value's alphabet only, so \<open>Set("PB", "0000")\<close> on a new mapping stores the entry.
\<close>

theorem Set_stores_PB:
  "run_ops NewBlocks [OpSet ''PB'' ''0000''] = Returns [(''PB'', ''0000'')]
   \<and> map_of [(''PB'', ''0000'')] ''PB'' = Some ''0000''"
  by (simp add: NewBlocks_def Blocks_Set_def asciiAlphanumeric_def asciiPrintable_def
      is_alnum_def is_printable_def)

lemma run_ops_example:
  "run_ops NewBlocks [OpSet ''TC'' ''abc'', OpLoad 2 ''KS06xxPB0600'', OpDelete ''TC'', OpSet ''AB'' ''1'']
     = Returns [(''KS'', ''xx''), (''AB'', ''1'')]"
  by code_simp

theorem PB_absent_unless_Set_witness:
  "map_of NewBlocks ''PB'' = None
   \<and> \<not> list_ex sets_PB [OpSet ''TC'' ''abc'', OpLoad 2 ''KS06xxPB0600'', OpDelete ''TC'', OpSet ''AB'' ''1'']
   \<and> run_ops NewBlocks [OpSet ''TC'' ''abc'', OpLoad 2 ''KS06xxPB0600'', OpDelete ''TC'', OpSet ''AB'' ''1'']
       = Returns [(''KS'', ''xx''), (''AB'', ''1'')]
   \<and> map_of [(''KS'', ''xx''), (''AB'', ''1'')] ''PB'' = None"
proof -
  have h1: "map_of NewBlocks ''PB'' = None" by (simp add: NewBlocks_def)
  have h2: "\<not> list_ex sets_PB [OpSet ''TC'' ''abc'', OpLoad 2 ''KS06xxPB0600'', OpDelete ''TC'', OpSet ''AB'' ''1'']"
    by simp
  show ?thesis
    using PB_absent_unless_Set [OF h1 h2 run_ops_example] h1 h2 run_ops_example by blast
qed

section \<open>Alignment of the block area\<close>

lemma length_pbBlock: "padNum \<le> 251 \<Longrightarrow> length (pbBlock padNum) = 4 + padNum"
  by (simp add: pbBlock_def length_sprint_0X)

lemma pad_aligns:
  fixes L a :: nat
  assumes "0 < a"
  shows "(L + (4 + (a - (L + 4) mod a))) mod a = 0"
proof -
  let ?r = "(L + 4) mod a"
  have r: "?r < a" using assms by simp
  have "L + 4 = (L + 4) div a * a + ?r" by simp
  then have "L + (4 + (a - ?r)) = (L + 4) div a * a + a" using r by linarith
  then show ?thesis by simp
qed

text \<open>
  Claim C9, as amended: for every block set and every algo block size from 1 to 251 (the
  profiles use 8 and 16), a successful serialization emits an area whose length is a
  multiple of the block size; the area is the caller's blocks alone when their
  concatenation is already aligned and the caller's blocks followed by one \<open>PB\<close> block
  (counted in the block count) when it is not; and parsing the emitted area, with any
  block count, never leaves a \<open>PB\<close> entry in the mapping.
\<close>

theorem Blocks_Dump_aligned:
  assumes "0 < bs" "bs \<le> 251" "Blocks_Dump b bs = (n, area, None)"
  shows "\<exists>body. dump_blocks b = Inr body
           \<and> length area mod nat bs = 0
           \<and> (if length body mod nat bs = 0 then area = body \<and> n = length b
               else area = body @ pbBlock (nat bs - (length body + 4) mod nat bs) \<and> n = length b + 1)
           \<and> (\<forall>k m i e. Blocks_Load k area = Returns (m, i, e) \<longrightarrow> map_of m ''PB'' = None)"
proof -
  from assms(3) obtain body where body: "dump_blocks b = Inr body"
    by (cases "dump_blocks b") (auto simp: Blocks_Dump_def)
  let ?a = "nat bs"
  let ?p = "?a - (length body + 4) mod ?a"
  have a: "0 < ?a" "?a \<le> 251" using assms(1,2) by auto
  have p: "?p \<le> 251" using a by linarith
  have nopb: "\<forall>k m i e. Blocks_Load k area = Returns (m, i, e) \<longrightarrow> map_of m ''PB'' = None"
    using Blocks_Load_no_PB by blast
  show ?thesis
  proof (cases "length body mod ?a = 0")
    case True
    then have "area = body \<and> n = length b"
      using assms(1,3) body by (auto simp: Blocks_Dump_def split: if_splits)
    then show ?thesis using True body nopb by auto
  next
    case False
    then have "0 < length body" by (cases body) auto
    then have eq: "area = body @ pbBlock ?p \<and> n = length b + 1"
      using assms(1,3) body False by (auto simp: Blocks_Dump_def Let_def split: if_splits)
    have "length area mod ?a = 0"
      using eq pad_aligns [OF a(1), of "length body"] by (simp add: length_pbBlock [OF p])
    then show ?thesis using False body nopb eq by auto
  qed
qed

lemma dump_AA_example: "Blocks_Dump [(''AA'', ''abc'')] 8 = (2, ''AA07abcPB0900000'', None)"
  by code_simp

theorem Blocks_Dump_aligned_witness:
  "(0::int) < 8 \<and> (8::int) \<le> 251 \<and> Blocks_Dump [(''AA'', ''abc'')] 8 = (2, ''AA07abcPB0900000'', None)
   \<and> (\<exists>body. dump_blocks [(''AA'', ''abc'')] = Inr body
           \<and> length ''AA07abcPB0900000'' mod nat 8 = 0
           \<and> (if length body mod nat 8 = 0 then ''AA07abcPB0900000'' = body \<and> (2::nat) = length [(''AA'', ''abc'')]
               else ''AA07abcPB0900000'' = body @ pbBlock (nat 8 - (length body + 4) mod nat 8)
                    \<and> (2::nat) = length [(''AA'', ''abc'')] + 1)
           \<and> (\<forall>k m i e. Blocks_Load k ''AA07abcPB0900000'' = Returns (m, i, e) \<longrightarrow> map_of m ''PB'' = None))"
proof -
  have h1: "(0::int) < 8" and h2: "(8::int) \<le> 251" by simp_all
  show ?thesis
    using Blocks_Dump_aligned [OF h1 h2 dump_AA_example] h1 h2 dump_AA_example by blast
qed

text \<open>
  Claim C9 as stated fails for large block sizes: the \<open>PB\<close> length field is printed with
  \<open>%02X\<close>, which takes three characters from 256 on.  With block size 252 and one block
  of 244 data characters the area is 505 characters long.
\<close>

theorem Blocks_Dump_252_not_aligned:
  "snd (snd (Blocks_Dump [(''AA'', replicate 244 CHR ''x'')] 252)) = None
   \<and> length (fst (snd (Blocks_Dump [(''AA'', replicate 244 CHR ''x'')] 252))) mod 252 = 1"
  by code_simp

section \<open>Parsing what \<open>Blocks.Dump\<close> emits\<close>

lemma load_block_PB:
  assumes "length pre = i" "padNum \<le> 251" "2 \<le> padNum + length post"
    and "i + padNum + 4 < 2 ^ 63"
  shows "load_block (pre @ pbBlock padNum @ post) i
         = Returns (Inr (''PB'', replicate padNum CHR ''0'', i + 4 + padNum))"
proof -
  have an: "asciiAlphanumeric ''PB''" by (simp add: asciiAlphanumeric_def is_alnum_def)
  have l: "length (sprint_0X 2 (4 + padNum)) = 2" using assms(2) by (simp add: length_sprint_0X)
  have h: "hexToInt (sprint_0X 2 (4 + padNum)) = int (length (replicate padNum CHR ''0'')) + 4"
    by (simp add: hexToInt_sprint_0X)
  show ?thesis
    using load_block_plain [of pre i "''PB''" "sprint_0X 2 (4 + padNum)" "replicate padNum CHR ''0''" post]
      assms an l h
    by (simp add: pbBlock_def)
qed

lemma load_block_short:
  assumes "length pre = i" "length blockID = 2" "asciiAlphanumeric blockID"
    and "length data + 4 \<le> 255" "2 \<le> length data + length post"
    and "i + length data + 4 < 2 ^ 63"
  shows "load_block (pre @ blockID @ EncodeToString [of_nat (length data + 4)] @ data @ post) i
         = Returns (Inr (blockID, data, i + 4 + length data))"
  using load_block_plain [of pre i blockID "EncodeToString [of_nat (length data + 4)]" data post]
    assms hexToInt_Encode [of "length data + 4"]
  by (simp add: length_Encode_single)

definition valid_block :: "string \<times> string \<Rightarrow> bool" where
  "valid_block kv = (length (fst kv) = 2 \<and> asciiAlphanumeric (fst kv) \<and> length (snd kv) + 10 \<le> 0xFFFF)"

lemma dump_blocks_valid: "list_all valid_block kvs \<Longrightarrow> \<exists>body. dump_blocks kvs = Inr body"
  by (induction kvs) (auto simp: valid_block_def)

lemma load_loop_dump_blocks:
  assumes "list_all valid_block kvs" "dump_blocks kvs = Inr body" "length pre = i"
    and "2 \<le> length post" "i + length body < 2 ^ 63"
  shows "\<exists>m'. load_loop (length kvs) (pre @ body @ post) i m = Returns (m', i + length body, None)"
  using assms
proof (induction kvs arbitrary: pre i m body)
  case Nil
  then show ?case by simp
next
  case (Cons kv kvs)
  obtain blockID d where kv: "kv = (blockID, d)" by (cases kv)
  have v: "length blockID = 2" "asciiAlphanumeric blockID" "length d + 10 \<le> 0xFFFF"
    and vs: "list_all valid_block kvs"
    using Cons.prems(1) kv by (auto simp: valid_block_def list_all_iff)
  from dump_blocks_valid [OF vs] obtain rest where rest: "dump_blocks kvs = Inr rest" by blast
  define frame where "frame = (if length d + 4 \<le> 255 then EncodeToString [of_nat (length d + 4)]
                               else ''0002'' @ sprint_0X 4 (length d + 10))"
  have lf: "length frame = (if length d + 4 \<le> 255 then 2 else 8)"
    using v(3) by (simp add: frame_def length_Encode_single length_sprint_0X)
  have body: "body = blockID @ frame @ d @ rest"
    using Cons.prems(2) kv rest v(3) by (auto simp: frame_def split: if_splits)
  let ?i' = "i + length (blockID @ frame @ d)"
  have lb: "load_block (pre @ body @ post) i = Returns (Inr (blockID, d, ?i'))"
  proof (cases "length d + 4 \<le> 255")
    case True
    have "load_block (pre @ blockID @ EncodeToString [of_nat (length d + 4)] @ d @ (rest @ post)) i
          = Returns (Inr (blockID, d, i + 4 + length d))"
      using Cons.prems(3,4,5) v True lf body by (intro load_block_short) auto
    then show ?thesis using True v(1) lf by (simp add: body frame_def add.assoc)
  next
    case False
    have "load_block (pre @ blockID @ ''0002'' @ sprint_0X 4 (length d + 10) @ d @ (rest @ post)) i
          = Returns (Inr (blockID, d, i + 10 + length d))"
      using Cons.prems(3,5) v False lf body by (intro load_block_ext) auto
    then show ?thesis using False v(1) lf by (simp add: body frame_def add.assoc)
  qed
  let ?m = "if blockID \<noteq> ''PB'' then AList.update blockID d m else m"
  have "\<exists>m'. load_loop (length kvs) ((pre @ blockID @ frame @ d) @ rest @ post) ?i' ?m
          = Returns (m', ?i' + length rest, None)"
    using vs rest Cons.prems(3,4,5) body by (intro Cons.IH) auto
  then obtain m' where
    "load_loop (length kvs) (pre @ body @ post) ?i' ?m = Returns (m', ?i' + length rest, None)"
    by (auto simp: body)
  then show ?case using lb kv by (simp add: body add.assoc)
qed

lemma load_loop_add:
  "load_loop j s i m = Returns (m', i', None) \<Longrightarrow> load_loop (j + k) s i m = load_loop k s i' m'"
proof (induction j arbitrary: i m)
  case 0
  then show ?case by simp
next
  case (Suc j)
  then show ?case
    by (cases "load_block s i") (auto split: sum.splits prod.splits)
qed

lemma load_loop_Blocks_Dump:
  assumes "list_all valid_block kvs" "Blocks_Dump kvs bs = (n, area, err)" "bs \<le> 251"
    and "length pre = i" "2 \<le> length post" "i + length area < 2 ^ 63"
  shows "err = None \<and> (\<exists>m'. load_loop n (pre @ area @ post) i m = Returns (m', i + length area, None))"
proof -
  from dump_blocks_valid [OF assms(1)] obtain body where body: "dump_blocks kvs = Inr body" by blast
  show ?thesis
  proof (cases "length body > 0 \<and> bs > 0 \<and> length body mod nat bs \<noteq> 0")
    case False
    then have eq: "n = length kvs" "area = body" "err = None"
      using assms(2) body by (auto simp: Blocks_Dump_def)
    show ?thesis
      using load_loop_dump_blocks [OF assms(1) body assms(4,5), of m] assms(6) eq by simp
  next
    case True
    let ?p = "nat bs - (length body + 4) mod nat bs"
    have p: "?p \<le> 251" using assms(3) by linarith
    have eq: "n = length kvs + 1" "area = body @ pbBlock ?p" "err = None"
      using assms(2) body True by (auto simp: Blocks_Dump_def Let_def)
    have la: "length area = length body + 4 + ?p" using eq(2) by (simp add: length_pbBlock [OF p])
    obtain m1 where m1: "load_loop (length kvs) (pre @ body @ (pbBlock ?p @ post)) i m
         = Returns (m1, i + length body, None)"
      using load_loop_dump_blocks [OF assms(1) body assms(4), of "pbBlock ?p @ post" m] assms(5,6) la
      by auto
    have pb: "load_block ((pre @ body) @ pbBlock ?p @ post) (i + length body)
         = Returns (Inr (''PB'', replicate ?p CHR ''0'', i + length body + 4 + ?p))"
      using assms(4,5,6) p la by (intro load_block_PB) auto
    have "load_loop (length kvs + 1) (pre @ body @ (pbBlock ?p @ post)) i m
         = load_loop 1 (pre @ body @ (pbBlock ?p @ post)) (i + length body) m1"
      by (rule load_loop_add [OF m1])
    also have "\<dots> = Returns (m1, i + length body + 4 + ?p, None)"
      using pb by simp
    finally show ?thesis using eq la by (simp add: add.assoc)
  qed
qed

section \<open>A block with an extended length\<close>

lemma sprint_0X_610: "sprint_0X 4 610 = ''0262''"
  by code_simp

lemma Blocks_Dump_TC:
  assumes "length payload = 600" "bs = 8 \<or> bs = 16"
  shows "Blocks_Dump [(''TC'', payload)] bs
         = (2, ''TC'' @ ''0002'' @ ''0262'' @ payload @ pbBlock (if bs = 8 then 2 else 10), None)"
  using assms by (auto simp: Blocks_Dump_def sprint_0X_610 Let_def)

lemma Blocks_Load_TC:
  assumes "length payload = 600" "p = 2 \<or> p = 10"
  shows "Blocks_Load 2 (''TC'' @ ''0002'' @ ''0262'' @ payload @ pbBlock p)
         = Returns ([(''TC'', payload)], 614 + p, None)"
proof -
  let ?s = "''TC'' @ ''0002'' @ ''0262'' @ payload @ pbBlock p"
  have an: "asciiAlphanumeric ''TC''" by (simp add: asciiAlphanumeric_def is_alnum_def)
  have b1: "load_block ([] @ ''TC'' @ ''0002'' @ sprint_0X 4 (length payload + 10) @ payload @ pbBlock p) 0
        = Returns (Inr (''TC'', payload, 0 + 10 + length payload))"
    using assms(1) an by (intro load_block_ext) auto
  have b2: "load_block ((''TC'' @ ''0002'' @ ''0262'' @ payload) @ pbBlock p @ []) 610
        = Returns (Inr (''PB'', replicate p CHR ''0'', 610 + 4 + p))"
    using assms by (intro load_block_PB) auto
  have l1: "load_block ?s 0 = Returns (Inr (''TC'', payload, 610))"
    using b1 assms(1) by (simp add: sprint_0X_610)
  have l2: "load_block ?s 610 = Returns (Inr (''PB'', replicate p CHR ''0'', 614 + p))"
    using b2 by simp
  have "load_loop (Suc (Suc 0)) ?s 0 [] = Returns ([(''TC'', payload)], 614 + p, None)"
    by (simp add: l1 l2 del: append.simps)
  then show ?thesis by (simp add: Blocks_Load_def numeral_2_eq_2 del: load_loop.simps append.simps)
qed

text \<open>
  Claim C4, as amended: serializing a block set that holds the one block \<open>TC\<close> with a
  600-byte payload, for a profile block size (8 or 16), emits \<open>TC\<close>, \<open>00\<close>, the
  length-of-length \<open>02\<close>, the length \<open>0262\<close> and the payload (then the pad block), and
  parsing the emitted area with the emitted block count returns exactly the payload under
  \<open>TC\<close> and nothing else.
\<close>

theorem TC_extended_length_roundtrip:
  assumes "length payload = 600" "bs = 8 \<or> bs = 16"
  shows "(case Blocks_Dump [(''TC'', payload)] bs of
            (n, area, err) \<Rightarrow>
              err = None
              \<and> take 10 area = ''TC'' @ ''00'' @ ''02'' @ ''0262''
              \<and> take 600 (drop 10 area) = payload
              \<and> Blocks_Load (int n) area = Returns ([(''TC'', payload)], length area, None))"
proof -
  let ?p = "if bs = 8 then 2 else 10 :: nat"
  have p: "?p = 2 \<or> ?p = 10" by simp
  have lp: "length (pbBlock ?p) = 4 + ?p" by (rule length_pbBlock) simp
  have "Blocks_Load 2 (''TC'' @ ''0002'' @ ''0262'' @ payload @ pbBlock ?p)
      = Returns ([(''TC'', payload)], length (''TC'' @ ''0002'' @ ''0262'' @ payload @ pbBlock ?p), None)"
    using Blocks_Load_TC [OF assms(1) p] assms(1) lp by simp
  then show ?thesis
    using assms(1) by (simp add: Blocks_Dump_TC [OF assms] del: append.simps)
qed

theorem TC_extended_length_roundtrip_witness:
  "(case Blocks_Dump [(''TC'', replicate 600 CHR ''A'')] 8 of
            (n, area, err) \<Rightarrow>
              err = None
              \<and> take 10 area = ''TC'' @ ''00'' @ ''02'' @ ''0262''
              \<and> take 600 (drop 10 area) = replicate 600 CHR ''A''
              \<and> Blocks_Load (int n) area = Returns ([(''TC'', replicate 600 CHR ''A'')], length area, None))"
  using TC_extended_length_roundtrip [of "replicate 600 CHR ''A''" 8] by simp

text \<open>
  Claim C4 as stated fails in the length-of-length field: \<open>Blocks.Dump\<close> emits \<open>02\<close> (the
  length field is two bytes, four hexadecimal characters), not \<open>04\<close>.
\<close>

theorem TC_length_of_length_is_02:
  "take 10 (fst (snd (Blocks_Dump [(''TC'', replicate 600 CHR ''A'')] 8))) = ''TC00020262''
   \<and> take 10 (fst (snd (Blocks_Dump [(''TC'', replicate 600 CHR ''A'')] 8))) \<noteq> ''TC00040262''"
  by (simp add: Blocks_Dump_TC)

end
